theory Spec2Isabelle
  imports Main "HOL-Library.Word"
begin

section \<open>Data model of the INI parser (package ini)\<close>

text \<open>
  The Go sources are \<^verbatim>\<open>parserc.go\<close> (the parser state machine) and a header with the
  type declarations. A Go \<^verbatim>\<open>[]byte\<close> or \<^verbatim>\<open>string\<close> is a \<open>string\<close> (a list of bytes),
  with \<^verbatim>\<open>nil\<close> and the empty slice both \<open>[]\<close>. Slices are taken by value: the
  token values handed out by the tokenizer are assumed not to share storage.
\<close>

record ini_mark_t =
  index :: int
  line :: int
  column :: int

definition ini_mark_zero :: ini_mark_t where
  "ini_mark_zero = \<lparr>index = 0, line = 0, column = 0\<rparr>"

datatype ini_error_type_t =
    ini_NO_ERROR
  | ini_MEMORY_ERROR
  | ini_READER_ERROR
  | ini_SCANNER_ERROR
  | ini_PARSER_ERROR
  | ini_COMPOSER_ERROR
  | ini_WRITER_ERROR
  | ini_EMITTER_ERROR

text \<open>\<^verbatim>\<open>ini_style_t\<close> is an \<^verbatim>\<open>int8\<close>; the scalar styles are its constants 0 to 4.\<close>

type_synonym ini_style_t = "8 word"

definition ini_ANY_SCALAR_STYLE :: ini_style_t where
  "ini_ANY_SCALAR_STYLE = 0"

definition ini_PLAIN_SCALAR_STYLE :: ini_style_t where
  "ini_PLAIN_SCALAR_STYLE = 1"

definition ini_LITERAL_SCALAR_STYLE :: ini_style_t where
  "ini_LITERAL_SCALAR_STYLE = 2"

definition ini_SINGLE_QUOTED_SCALAR_STYLE :: ini_style_t where
  "ini_SINGLE_QUOTED_SCALAR_STYLE = 3"

definition ini_DOUBLE_QUOTED_SCALAR_STYLE :: ini_style_t where
  "ini_DOUBLE_QUOTED_SCALAR_STYLE = 4"

text \<open>
  Modelled from the spec: the declaration of the token kinds that \<^verbatim>\<open>parserc.go\<close> is
  compiled against is missing (the header at hand declares \<^verbatim>\<open>ini_KEY_TOKEN\<close> and
  \<^verbatim>\<open>ini_VALUE_TOKEN\<close> and no scalar token). The kinds are those the parser names
  (document start and end, section start, end and inherit, section key, section value,
  scalar) and those the spec reserves for the tokenizer (stream start and end, comment
  markers); \<open>ini_NO_TOKEN\<close> is the zero value.
\<close>

datatype ini_token_type_t =
    ini_NO_TOKEN
  | ini_STREAM_START_TOKEN
  | ini_STREAM_END_TOKEN
  | ini_DOCUMENT_START_TOKEN
  | ini_DOCUMENT_END_TOKEN
  | ini_SECTION_START_TOKEN
  | ini_SECTION_END_TOKEN
  | ini_SECTION_INHERIT_TOKEN
  | ini_SECTION_KEY_TOKEN
  | ini_SECTION_VALUE_TOKEN
  | ini_SCALAR_TOKEN
  | ini_COMMENT_START_TOKEN
  | ini_COMMENT_END_TOKEN

record ini_token_t =
  "typ" :: ini_token_type_t
  start_mark :: ini_mark_t
  end_mark :: ini_mark_t
  "value" :: string
  style :: ini_style_t

text \<open>
  Modelled from the spec: the event kinds and the event's \<^verbatim>\<open>tag\<close> field, which
  \<^verbatim>\<open>parserc.go\<close> uses and the header at hand does not declare. The parser emits four
  kinds (document start, document end, section entry, scalar); \<open>ini_NO_EVENT\<close> is the
  zero value of an erased event.
\<close>

datatype ini_event_type_t =
    ini_NO_EVENT
  | ini_STREAM_START_EVENT
  | ini_STREAM_END_EVENT
  | ini_DOCUMENT_START_EVENT
  | ini_DOCUMENT_END_EVENT
  | ini_SECTION_ENTRY_EVENT
  | ini_SCALAR_EVENT
  | ini_COMMENT_EVENT

record ini_event_t =
  "typ" :: ini_event_type_t
  start_mark :: ini_mark_t
  end_mark :: ini_mark_t
  "value" :: string
  tag :: string
  implicit :: bool
  style :: ini_style_t

text \<open>The Go zero value \<^verbatim>\<open>ini_event_t{}\<close>.\<close>

definition ini_event_zero :: ini_event_t where
  "ini_event_zero =
     \<lparr>typ = ini_NO_EVENT, start_mark = ini_mark_zero, end_mark = ini_mark_zero,
      value = [], tag = [], implicit = False, style = 0\<rparr>"

text \<open>
  Modelled from the spec: the parser states \<^verbatim>\<open>parserc.go\<close> dispatches on (the header at
  hand lacks the key and value states of a section). \<open>ini_PARSE_STREAM_START_STATE\<close> is
  the zero value; the state machine handles six states and panics on every other.
\<close>

datatype ini_parser_state_t =
    ini_PARSE_STREAM_START_STATE
  | ini_PARSE_DOCUMENT_START_STATE
  | ini_PARSE_DOCUMENT_END_STATE
  | ini_PARSE_DOCUMENT_CONTENT_STATE
  | ini_PARSE_SECTION_FIRST_ENTRY_STATE
  | ini_PARSE_SECTION_ENTRY_STATE
  | ini_PARSE_SECTION_FIRST_KEY_STATE
  | ini_PARSE_SECTION_KEY_STATE
  | ini_PARSE_SECTION_VALUE_STATE
  | ini_PARSE_COMMENT_START_STATE
  | ini_PARSE_COMMENT_CONTENT_STATE
  | ini_PARSE_COMMENT_END_STATE
  | ini_PARSE_STREAM_END_STATE

text \<open>
  The parser structure, with the fields \<^verbatim>\<open>parserc.go\<close> reads and writes. The reader and
  scanner fields, which only the tokenizer touches, are the record's extension (every
  function below works on \<open>'a ini_parser_t_scheme\<close>). \<open>tokens_head\<close> indexes the
  queue, so it is a \<open>nat\<close>; \<open>tokens_parsed\<close> is a 64-bit counter that wraps. The state
  stack \<open>states\<close> grows at its end, as the Go slice does.
\<close>

record ini_parser_t =
  error :: ini_error_type_t
  problem :: string
  problem_mark :: ini_mark_t
  "context" :: string
  context_mark :: ini_mark_t
  tokens :: "ini_token_t list"
  tokens_head :: nat
  tokens_parsed :: "64 word"
  token_available :: bool
  document_end_produced :: bool
  state :: ini_parser_state_t
  states :: "ini_parser_state_t list"

text \<open>
  What \<^verbatim>\<open>parserc.go\<close> calls and the sources do not define, taken as parameters: the
  tokenizer's entry point \<open>ini_parser_fetch_more_tokens\<close> (it may change the parser and
  returns whether a token is now at the head of the queue), the scalar classifier
  \<open>analyzeTag\<close>, and the three tag constants.
\<close>

record 'a ini_env =
  ini_parser_fetch_more_tokens :: "'a ini_parser_t_scheme \<Rightarrow> bool \<times> 'a ini_parser_t_scheme"
  analyzeTag :: "string \<Rightarrow> string"
  ini_SECTION_TAG :: string
  ini_SECTION_INHERIT_TAG :: string
  ini_NULL_TAG :: string

text \<open>A Go run-time panic ends the call: neither a success nor a failure status.\<close>

datatype go_panic = index_out_of_range | invalid_parser_state

section \<open>The token source\<close>

text \<open>Reading \<^verbatim>\<open>parser.tokens[parser.tokens_head]\<close>, which panics out of range.\<close>

definition tokens_at_head :: "'a ini_parser_t_scheme \<Rightarrow> go_panic + ini_token_t" where
  "tokens_at_head parser =
     (if tokens_head parser < length (tokens parser)
      then Inr (tokens parser ! tokens_head parser)
      else Inl index_out_of_range)"

text \<open>
  \<^verbatim>\<open>peek_token\<close>: the token at the head of the queue (a copy of what the returned
  pointer points to; the parser reads it before the next fetch), or \<open>None\<close> for \<^verbatim>\<open>nil\<close>.
  The tokenizer is called only when no token is marked available.
\<close>

definition peek_token ::
  "'a ini_env \<Rightarrow> 'a ini_parser_t_scheme \<Rightarrow> go_panic + (ini_token_t option \<times> 'a ini_parser_t_scheme)"
where
  "peek_token env parser =
     (if token_available parser
      then (case tokens_at_head parser of
              Inl e \<Rightarrow> Inl e
            | Inr token \<Rightarrow> Inr (Some token, parser))
      else (let (fetched, parser) = ini_parser_fetch_more_tokens env parser in
            if fetched
            then (case tokens_at_head parser of
                    Inl e \<Rightarrow> Inl e
                  | Inr token \<Rightarrow> Inr (Some token, parser))
            else Inr (None, parser)))"

definition skip_token :: "'a ini_parser_t_scheme \<Rightarrow> go_panic + 'a ini_parser_t_scheme" where
  "skip_token parser =
     (case tokens_at_head parser of
        Inl e \<Rightarrow> Inl e
      | Inr token \<Rightarrow>
          Inr (parser\<lparr>token_available := False,
                      tokens_parsed := tokens_parsed parser + 1,
                      document_end_produced := (ini_token_t.typ token = ini_DOCUMENT_END_TOKEN),
                      tokens_head := tokens_head parser + 1\<rparr>))"

section \<open>Errors\<close>

definition ini_parser_set_parser_error ::
  "'a ini_parser_t_scheme \<Rightarrow> string \<Rightarrow> ini_mark_t \<Rightarrow> bool \<times> 'a ini_parser_t_scheme"
where
  "ini_parser_set_parser_error parser problem' problem_mark' =
     (False, parser\<lparr>error := ini_PARSER_ERROR, problem := problem',
                     problem_mark := problem_mark'\<rparr>)"

definition ini_parser_set_parser_error_context ::
  "'a ini_parser_t_scheme \<Rightarrow> string \<Rightarrow> ini_mark_t \<Rightarrow> string \<Rightarrow> ini_mark_t
     \<Rightarrow> bool \<times> 'a ini_parser_t_scheme"
where
  "ini_parser_set_parser_error_context parser context' context_mark' problem' problem_mark' =
     (False, parser\<lparr>error := ini_PARSER_ERROR, context := context',
                     context_mark := context_mark', problem := problem',
                     problem_mark := problem_mark'\<rparr>)"

text \<open>
  A transition function returns its status, the caller's event object (written only on
  the paths that emit) and the parser. \<open>fail_with\<close> is the shape of
  \<^verbatim>\<open>return ini_parser_set_parser_error(parser, problem, mark)\<close>.
\<close>

type_synonym 'a step_result = "go_panic + (bool \<times> ini_event_t \<times> 'a ini_parser_t_scheme)"

definition fail_with ::
  "'a ini_parser_t_scheme \<Rightarrow> ini_event_t \<Rightarrow> string \<Rightarrow> ini_mark_t \<Rightarrow> 'a step_result"
where
  "fail_with parser event problem' mark =
     (let (status, parser) = ini_parser_set_parser_error parser problem' mark
      in Inr (status, event, parser))"

section \<open>The state machine\<close>

definition ini_parser_parse_document_start ::
  "'a ini_env \<Rightarrow> 'a ini_parser_t_scheme \<Rightarrow> ini_event_t \<Rightarrow> 'a step_result"
where
  "ini_parser_parse_document_start env parser event =
     (case peek_token env parser of
        Inl e \<Rightarrow> Inl e
      | Inr (None, parser) \<Rightarrow> Inr (False, event, parser)
      | Inr (Some token, parser) \<Rightarrow>
          (case skip_token parser of
             Inl e \<Rightarrow> Inl e
           | Inr parser \<Rightarrow>
               if ini_token_t.typ token \<noteq> ini_DOCUMENT_START_TOKEN
               then fail_with parser event ''did not find expected <document-start>''
                      (ini_token_t.start_mark token)
               else Inr (True,
                         \<lparr>typ = ini_DOCUMENT_START_EVENT,
                          start_mark = ini_token_t.start_mark token,
                          end_mark = ini_token_t.end_mark token,
                          value = [], tag = [], implicit = False, style = 0\<rparr>,
                         parser\<lparr>states := states parser @ [ini_PARSE_DOCUMENT_END_STATE],
                                state := ini_PARSE_SECTION_FIRST_ENTRY_STATE\<rparr>)))"

text \<open>
  The loop \<^verbatim>\<open>for _, v := range token.value { section_name = append(section_name, v) }\<close>.
\<close>

definition append_bytes :: "string \<Rightarrow> string \<Rightarrow> string" where
  "append_bytes section_name bytes = foldl (\<lambda>name v. name @ [v]) section_name bytes"

text \<open>
  The end of a section header (the last \<^verbatim>\<open>if\<close> of the section-start branch of
  \<^verbatim>\<open>ini_parser_parse_section_entry\<close>), where the path with an inherit clause and the
  path without one meet: \<open>token\<close> is the lookahead after the name, \<open>inherit\<close> tells
  which path was taken.
\<close>

definition section_entry_end ::
  "'a ini_parser_t_scheme \<Rightarrow> ini_event_t \<Rightarrow> ini_token_t \<Rightarrow> bool \<Rightarrow> ini_mark_t \<Rightarrow> ini_mark_t
     \<Rightarrow> string \<Rightarrow> string \<Rightarrow> string \<Rightarrow> 'a step_result"
where
  "section_entry_end parser event token inherit start_mark' end_mark' section_name
       section_tag inherit_tag =
     (if ini_token_t.typ token = ini_SECTION_END_TOKEN
      then (case skip_token parser of
              Inl e \<Rightarrow> Inl e
            | Inr parser \<Rightarrow>
                Inr (True,
                     \<lparr>typ = ini_SECTION_ENTRY_EVENT,
                      start_mark = start_mark', end_mark = end_mark',
                      value = section_name,
                      tag = (if inherit then inherit_tag else section_tag),
                      implicit = False,
                      style = ini_token_t.style token\<rparr>,
                     parser\<lparr>state := ini_PARSE_SECTION_FIRST_KEY_STATE\<rparr>))
      else fail_with parser event ''did not find expected <section-end>''
             (ini_token_t.start_mark token))"

text \<open>The section-start branch: \<^verbatim>\<open>[name]\<close> or \<^verbatim>\<open>[name:parent]\<close>.\<close>

definition section_entry_start ::
  "'a ini_env \<Rightarrow> 'a ini_parser_t_scheme \<Rightarrow> ini_event_t \<Rightarrow> ini_token_t \<Rightarrow> 'a step_result"
where
  "section_entry_start env parser event token =
     (let start_mark' = ini_token_t.start_mark token in
      case skip_token parser of
        Inl e \<Rightarrow> Inl e
      | Inr parser \<Rightarrow>
      (case peek_token env parser of
        Inl e \<Rightarrow> Inl e
      | Inr (None, parser) \<Rightarrow> Inr (False, event, parser)
      | Inr (Some token, parser) \<Rightarrow>
      (case skip_token parser of
        Inl e \<Rightarrow> Inl e
      | Inr parser \<Rightarrow>
      if ini_token_t.typ token = ini_SCALAR_TOKEN
      then
        (let section_name = ini_token_t.value token in
         case peek_token env parser of
           Inl e \<Rightarrow> Inl e
         | Inr (None, parser) \<Rightarrow> Inr (False, event, parser)
         | Inr (Some token, parser) \<Rightarrow>
         (let end_mark' = ini_token_t.end_mark token in
          if ini_token_t.typ token = ini_SECTION_INHERIT_TOKEN
          then
            (case skip_token parser of
               Inl e \<Rightarrow> Inl e
             | Inr parser \<Rightarrow>
             (let section_name = append_bytes section_name (ini_token_t.value token) in
              case peek_token env parser of
                Inl e \<Rightarrow> Inl e
              | Inr (None, parser) \<Rightarrow> Inr (False, event, parser)
              | Inr (Some token, parser) \<Rightarrow>
              (case skip_token parser of
                 Inl e \<Rightarrow> Inl e
               | Inr parser \<Rightarrow>
               (let section_name = append_bytes section_name (ini_token_t.value token);
                    end_mark' = ini_token_t.end_mark token
                in
                if ini_token_t.typ token = ini_SCALAR_TOKEN
                then
                  (let parser = parser\<lparr>state := ini_PARSE_SECTION_FIRST_KEY_STATE\<rparr> in
                   case peek_token env parser of
                     Inl e \<Rightarrow> Inl e
                   | Inr (None, parser) \<Rightarrow> Inr (False, event, parser)
                   | Inr (Some token, parser) \<Rightarrow>
                       section_entry_end parser event token True start_mark' end_mark'
                         section_name (ini_SECTION_TAG env) (ini_SECTION_INHERIT_TAG env))
                else fail_with parser event ''did not find expected <scalar>''
                       (ini_token_t.start_mark token)))))
          else section_entry_end parser event token False start_mark' end_mark'
                 section_name (ini_SECTION_TAG env) (ini_SECTION_INHERIT_TAG env)))
      else fail_with parser event ''did not find expected <scalar>''
             (ini_token_t.start_mark token))))"

text \<open>The section-end branch: \<^verbatim>\<open>]\<close>, a section-key token and the token after it.\<close>

definition section_entry_section_end ::
  "'a ini_env \<Rightarrow> 'a ini_parser_t_scheme \<Rightarrow> ini_event_t \<Rightarrow> 'a step_result"
where
  "section_entry_section_end env parser event =
     (case skip_token parser of
        Inl e \<Rightarrow> Inl e
      | Inr parser \<Rightarrow>
      (case peek_token env parser of
        Inl e \<Rightarrow> Inl e
      | Inr (None, parser) \<Rightarrow> Inr (False, event, parser)
      | Inr (Some token, parser) \<Rightarrow>
      (case skip_token parser of
        Inl e \<Rightarrow> Inl e
      | Inr parser \<Rightarrow>
      if ini_token_t.typ token = ini_SECTION_KEY_TOKEN
      then
        (let start_mark' = ini_token_t.start_mark token in
         case peek_token env parser of
           Inl e \<Rightarrow> Inl e
         | Inr (None, parser) \<Rightarrow> Inr (False, event, parser)
         | Inr (Some token, parser) \<Rightarrow>
         (let end_mark' = ini_token_t.end_mark token in
          case skip_token parser of
            Inl e \<Rightarrow> Inl e
          | Inr parser \<Rightarrow>
              Inr (True,
                   \<lparr>typ = ini_SCALAR_EVENT,
                    start_mark = start_mark', end_mark = end_mark',
                    value = ini_token_t.value token,
                    tag = analyzeTag env (ini_token_t.value token),
                    implicit = False, style = 0\<rparr>,
                   parser\<lparr>state := ini_PARSE_SECTION_VALUE_STATE\<rparr>)))
      else fail_with parser event ''did not find expected <section-key>''
             (ini_token_t.start_mark token))))"

definition ini_parser_parse_section_entry ::
  "'a ini_env \<Rightarrow> 'a ini_parser_t_scheme \<Rightarrow> ini_event_t \<Rightarrow> bool \<Rightarrow> 'a step_result"
where
  "ini_parser_parse_section_entry env parser event first =
     (case peek_token env parser of
        Inl e \<Rightarrow> Inl e
      | Inr (None, parser) \<Rightarrow> Inr (False, event, parser)
      | Inr (Some token, parser) \<Rightarrow>
          if ini_token_t.typ token = ini_DOCUMENT_END_TOKEN
          then (if states parser = [] then Inl index_out_of_range
                else Inr (True,
                          \<lparr>typ = ini_DOCUMENT_END_EVENT,
                           start_mark = ini_token_t.start_mark token,
                           end_mark = ini_token_t.end_mark token,
                           value = [], tag = [], implicit = False, style = 0\<rparr>,
                          parser\<lparr>state := last (states parser),
                                 states := butlast (states parser)\<rparr>))
          else if first \<and> ini_token_t.typ token = ini_SECTION_KEY_TOKEN
          then Inr (True,
                    \<lparr>typ = ini_SECTION_ENTRY_EVENT,
                     start_mark = ini_token_t.start_mark token,
                     end_mark = ini_token_t.start_mark token,
                     value = ''default'',
                     tag = ini_SECTION_TAG env,
                     implicit = False, style = 0\<rparr>,
                    parser\<lparr>state := ini_PARSE_SECTION_FIRST_KEY_STATE\<rparr>)
          else if ini_token_t.typ token = ini_SECTION_START_TOKEN
          then section_entry_start env parser event token
          else if ini_token_t.typ token = ini_SECTION_END_TOKEN
          then section_entry_section_end env parser event
          else fail_with parser event
                 ''did not find expected <section-start> or <section-key>''
                 (ini_token_t.start_mark token))"

text \<open>\<^verbatim>\<open>first\<close> is a parameter of the Go function that its body never reads.\<close>

definition ini_parser_parse_section_key ::
  "'a ini_env \<Rightarrow> 'a ini_parser_t_scheme \<Rightarrow> ini_event_t \<Rightarrow> bool \<Rightarrow> 'a step_result"
where
  "ini_parser_parse_section_key env parser event first =
     (case peek_token env parser of
        Inl e \<Rightarrow> Inl e
      | Inr (None, parser) \<Rightarrow> Inr (False, event, parser)
      | Inr (Some token, parser) \<Rightarrow>
          if ini_token_t.typ token = ini_SECTION_KEY_TOKEN
          then
            (case skip_token parser of
               Inl e \<Rightarrow> Inl e
             | Inr parser \<Rightarrow>
             (let start_mark' = ini_token_t.start_mark token in
              case peek_token env parser of
                Inl e \<Rightarrow> Inl e
              | Inr (None, parser) \<Rightarrow> Inr (False, event, parser)
              | Inr (Some token, parser) \<Rightarrow>
              (let end_mark' = ini_token_t.end_mark token in
               if ini_token_t.typ token = ini_SCALAR_TOKEN
               then
                 (case skip_token parser of
                    Inl e \<Rightarrow> Inl e
                  | Inr parser \<Rightarrow>
                      Inr (True,
                           \<lparr>typ = ini_SCALAR_EVENT,
                            start_mark = start_mark', end_mark = end_mark',
                            value = ini_token_t.value token,
                            tag = analyzeTag env (ini_token_t.value token),
                            implicit = False,
                            style = ini_token_t.style token\<rparr>,
                           parser\<lparr>state := ini_PARSE_SECTION_VALUE_STATE\<rparr>))
               else fail_with parser event ''did not find expected <scalar>''
                      (ini_token_t.start_mark token))))
          else Inr (True,
                    \<lparr>typ = ini_SECTION_ENTRY_EVENT,
                     start_mark = ini_token_t.start_mark token,
                     end_mark = ini_token_t.end_mark token,
                     value = [], tag = [], implicit = False, style = 0\<rparr>,
                    parser\<lparr>state := ini_PARSE_SECTION_ENTRY_STATE\<rparr>))"

definition ini_parser_process_empty_scalar ::
  "'a ini_env \<Rightarrow> 'a ini_parser_t_scheme \<Rightarrow> ini_event_t \<Rightarrow> ini_mark_t \<Rightarrow> 'a step_result"
where
  "ini_parser_process_empty_scalar env parser event mark =
     Inr (True,
          \<lparr>typ = ini_SCALAR_EVENT, start_mark = mark, end_mark = mark,
           value = [], tag = ini_NULL_TAG env, implicit = False,
           style = ini_PLAIN_SCALAR_STYLE\<rparr>,
          parser)"

definition ini_parser_parse_section_value ::
  "'a ini_env \<Rightarrow> 'a ini_parser_t_scheme \<Rightarrow> ini_event_t \<Rightarrow> 'a step_result"
where
  "ini_parser_parse_section_value env parser event =
     (case peek_token env parser of
        Inl e \<Rightarrow> Inl e
      | Inr (None, parser) \<Rightarrow> Inr (False, event, parser)
      | Inr (Some token, parser) \<Rightarrow>
          if ini_token_t.typ token = ini_SECTION_VALUE_TOKEN
          then
            (case skip_token parser of
               Inl e \<Rightarrow> Inl e
             | Inr parser \<Rightarrow>
             (let start_mark' = ini_token_t.start_mark token in
              case peek_token env parser of
                Inl e \<Rightarrow> Inl e
              | Inr (None, parser) \<Rightarrow> Inr (False, event, parser)
              | Inr (Some token, parser) \<Rightarrow>
              (let end_mark' = ini_token_t.end_mark token in
               if ini_token_t.typ token = ini_SCALAR_TOKEN
               then
                 (case skip_token parser of
                    Inl e \<Rightarrow> Inl e
                  | Inr parser \<Rightarrow>
                      Inr (True,
                           \<lparr>typ = ini_SCALAR_EVENT,
                            start_mark = start_mark', end_mark = end_mark',
                            value = ini_token_t.value token,
                            tag = analyzeTag env (ini_token_t.value token),
                            implicit = False,
                            style = ini_token_t.style token\<rparr>,
                           parser\<lparr>state := ini_PARSE_SECTION_KEY_STATE\<rparr>))
               else ini_parser_process_empty_scalar env
                      (parser\<lparr>state := ini_PARSE_SECTION_KEY_STATE\<rparr>) event
                      (ini_token_t.start_mark token))))
          else fail_with parser event ''did not find expected <section-value>''
                 (ini_token_t.start_mark token))"

text \<open>The state dispatcher; \<^verbatim>\<open>default: panic("invalid parser state")\<close>.\<close>

definition ini_parser_state_machine ::
  "'a ini_env \<Rightarrow> 'a ini_parser_t_scheme \<Rightarrow> ini_event_t \<Rightarrow> 'a step_result"
where
  "ini_parser_state_machine env parser event =
     (case state parser of
        ini_PARSE_DOCUMENT_START_STATE \<Rightarrow> ini_parser_parse_document_start env parser event
      | ini_PARSE_SECTION_FIRST_ENTRY_STATE \<Rightarrow>
          ini_parser_parse_section_entry env parser event True
      | ini_PARSE_SECTION_ENTRY_STATE \<Rightarrow>
          ini_parser_parse_section_entry env parser event False
      | ini_PARSE_SECTION_FIRST_KEY_STATE \<Rightarrow>
          ini_parser_parse_section_key env parser event True
      | ini_PARSE_SECTION_KEY_STATE \<Rightarrow>
          ini_parser_parse_section_key env parser event False
      | ini_PARSE_SECTION_VALUE_STATE \<Rightarrow> ini_parser_parse_section_value env parser event
      | _ \<Rightarrow> Inl invalid_parser_state)"

text \<open>
  \<^verbatim>\<open>ini_parser_parse\<close>: get the next event. The event object is erased first; no events
  after the end of the stream or an error.
\<close>

definition ini_parser_parse ::
  "'a ini_env \<Rightarrow> 'a ini_parser_t_scheme \<Rightarrow> ini_event_t \<Rightarrow> 'a step_result"
where
  "ini_parser_parse env parser event =
     (let event = ini_event_zero in
      if document_end_produced parser \<or> error parser \<noteq> ini_NO_ERROR
           \<or> state parser = ini_PARSE_DOCUMENT_END_STATE
      then Inr (True, event, parser)
      else ini_parser_state_machine env parser event)"

section \<open>Callers and a tokenizer to run the parser on\<close>

text \<open>
  A caller that asks for \<open>n\<close> events in a row with one event object, as a consumer's
  loop does; it collects the status and the event of every call.
\<close>

fun ini_parser_parse_calls ::
  "'a ini_env \<Rightarrow> nat \<Rightarrow> 'a ini_parser_t_scheme \<Rightarrow> ini_event_t
     \<Rightarrow> go_panic + ((bool \<times> ini_event_t) list \<times> 'a ini_parser_t_scheme)"
where
  "ini_parser_parse_calls env 0 parser event = Inr ([], parser)"
| "ini_parser_parse_calls env (Suc n) parser event =
     (case ini_parser_parse env parser event of
        Inl e \<Rightarrow> Inl e
      | Inr (status, event, parser) \<Rightarrow>
          (case ini_parser_parse_calls env n parser event of
             Inl e \<Rightarrow> Inl e
           | Inr (results, parser) \<Rightarrow> Inr ((status, event) # results, parser)))"

text \<open>
  Modelled from the spec: \<^verbatim>\<open>ini_parser_fetch_more_tokens\<close> belongs to the tokenizer, which
  is not among the sources. The spec's token source fetches from the tokenizer only when
  the queue is empty, keeps an "available" flag, and yields no token only when the
  tokenizer has failed and recorded its error. \<open>fetch_queued\<close> is the tokenizer whose
  whole output already stands in the queue: a queued token is marked available, and an
  empty queue is a scanner failure.
\<close>

definition fetch_queued :: "'a ini_parser_t_scheme \<Rightarrow> bool \<times> 'a ini_parser_t_scheme" where
  "fetch_queued parser =
     (if tokens_head parser < length (tokens parser)
      then (True, parser\<lparr>token_available := True\<rparr>)
      else (False, parser\<lparr>error := ini_SCANNER_ERROR\<rparr>))"

text \<open>
  Sample parameters for running the model: the queue tokenizer, a classifier that calls
  everything a string, and tag constants in the style of the YAML tags the package
  descends from.
\<close>

definition sample_env :: "unit ini_env" where
  "sample_env =
     \<lparr>ini_parser_fetch_more_tokens = fetch_queued,
      analyzeTag = (\<lambda>v. ''!!str''),
      ini_SECTION_TAG = ''!!section'',
      ini_SECTION_INHERIT_TAG = ''!!inherit'',
      ini_NULL_TAG = ''!!null''\<rparr>"

text \<open>A mark at byte \<open>i\<close> of the first line, and a token of one kind over a byte range.\<close>

definition mark_at :: "int \<Rightarrow> ini_mark_t" where
  "mark_at i = \<lparr>index = i, line = 0, column = i\<rparr>"

definition token_of :: "ini_token_type_t \<Rightarrow> int \<Rightarrow> int \<Rightarrow> string \<Rightarrow> ini_token_t" where
  "token_of kind from to bytes =
     \<lparr>ini_token_t.typ = kind, start_mark = mark_at from, end_mark = mark_at to,
      value = bytes, style = ini_PLAIN_SCALAR_STYLE\<rparr>"

text \<open>A parser without an error, in state \<open>st\<close> with stack \<open>stack\<close>, over a queue.\<close>

definition parser_over ::
  "ini_parser_state_t \<Rightarrow> ini_parser_state_t list \<Rightarrow> ini_token_t list \<Rightarrow> ini_parser_t"
where
  "parser_over st stack queue =
     \<lparr>error = ini_NO_ERROR, problem = [], problem_mark = ini_mark_zero,
      context = [], context_mark = ini_mark_zero,
      tokens = queue, tokens_head = 0, tokens_parsed = 0,
      token_available = False, document_end_produced = False,
      state = st, states = stack\<rparr>"

section \<open>Monitoring the flag \<open>document_end_produced\<close>\<close>

text \<open>
  To speak of every peek and consume that a call makes, each operation gets a monitored
  twin (suffix \<open>_m\<close>) that does what the operation does and stops with \<open>flag_reset\<close>
  when it finds \<open>document_end_produced\<close> true and leaves it false. The monitored
  transition functions are the transition functions above, word for word, over the
  monitored token source; a panic of the code is passed on as \<open>panicked\<close>. The other
  assignments of the transition functions (\<open>state\<close>, \<open>states\<close>, the error fields) do not
  write the flag.
\<close>

datatype monitor_stop = flag_reset | panicked go_panic

type_synonym 'a monitored_result =
  "monitor_stop + (bool \<times> ini_event_t \<times> 'a ini_parser_t_scheme)"

definition resets_flag :: "'a ini_parser_t_scheme \<Rightarrow> 'a ini_parser_t_scheme \<Rightarrow> bool" where
  "resets_flag before after = (document_end_produced before \<and> \<not> document_end_produced after)"

fun lift_panic :: "go_panic + 'b \<Rightarrow> monitor_stop + 'b" where
  "lift_panic (Inl e) = Inl (panicked e)"
| "lift_panic (Inr r) = Inr r"

definition peek_token_m ::
  "'a ini_env \<Rightarrow> 'a ini_parser_t_scheme
     \<Rightarrow> monitor_stop + (ini_token_t option \<times> 'a ini_parser_t_scheme)"
where
  "peek_token_m env parser =
     (case peek_token env parser of
        Inl e \<Rightarrow> Inl (panicked e)
      | Inr (token, parser') \<Rightarrow>
          if resets_flag parser parser' then Inl flag_reset else Inr (token, parser'))"

definition skip_token_m :: "'a ini_parser_t_scheme \<Rightarrow> monitor_stop + 'a ini_parser_t_scheme" where
  "skip_token_m parser =
     (case skip_token parser of
        Inl e \<Rightarrow> Inl (panicked e)
      | Inr parser' \<Rightarrow>
          if resets_flag parser parser' then Inl flag_reset else Inr parser')"

definition fail_with_m ::
  "'a ini_parser_t_scheme \<Rightarrow> ini_event_t \<Rightarrow> string \<Rightarrow> ini_mark_t \<Rightarrow> 'a monitored_result"
where
  "fail_with_m parser event problem' mark = lift_panic (fail_with parser event problem' mark)"

definition ini_parser_process_empty_scalar_m ::
  "'a ini_env \<Rightarrow> 'a ini_parser_t_scheme \<Rightarrow> ini_event_t \<Rightarrow> ini_mark_t \<Rightarrow> 'a monitored_result"
where
  "ini_parser_process_empty_scalar_m env parser event mark =
     lift_panic (ini_parser_process_empty_scalar env parser event mark)"

definition ini_parser_parse_document_start_m ::
  "'a ini_env \<Rightarrow> 'a ini_parser_t_scheme \<Rightarrow> ini_event_t \<Rightarrow> 'a monitored_result"
where
  "ini_parser_parse_document_start_m env parser event =
     (case peek_token_m env parser of
        Inl e \<Rightarrow> Inl e
      | Inr (None, parser) \<Rightarrow> Inr (False, event, parser)
      | Inr (Some token, parser) \<Rightarrow>
          (case skip_token_m parser of
             Inl e \<Rightarrow> Inl e
           | Inr parser \<Rightarrow>
               if ini_token_t.typ token \<noteq> ini_DOCUMENT_START_TOKEN
               then fail_with_m parser event ''did not find expected <document-start>''
                      (ini_token_t.start_mark token)
               else Inr (True,
                         \<lparr>typ = ini_DOCUMENT_START_EVENT,
                          start_mark = ini_token_t.start_mark token,
                          end_mark = ini_token_t.end_mark token,
                          value = [], tag = [], implicit = False, style = 0\<rparr>,
                         parser\<lparr>states := states parser @ [ini_PARSE_DOCUMENT_END_STATE],
                                state := ini_PARSE_SECTION_FIRST_ENTRY_STATE\<rparr>)))"

definition section_entry_end_m ::
  "'a ini_parser_t_scheme \<Rightarrow> ini_event_t \<Rightarrow> ini_token_t \<Rightarrow> bool \<Rightarrow> ini_mark_t \<Rightarrow> ini_mark_t
     \<Rightarrow> string \<Rightarrow> string \<Rightarrow> string \<Rightarrow> 'a monitored_result"
where
  "section_entry_end_m parser event token inherit start_mark' end_mark' section_name
       section_tag inherit_tag =
     (if ini_token_t.typ token = ini_SECTION_END_TOKEN
      then (case skip_token_m parser of
              Inl e \<Rightarrow> Inl e
            | Inr parser \<Rightarrow>
                Inr (True,
                     \<lparr>typ = ini_SECTION_ENTRY_EVENT,
                      start_mark = start_mark', end_mark = end_mark',
                      value = section_name,
                      tag = (if inherit then inherit_tag else section_tag),
                      implicit = False,
                      style = ini_token_t.style token\<rparr>,
                     parser\<lparr>state := ini_PARSE_SECTION_FIRST_KEY_STATE\<rparr>))
      else fail_with_m parser event ''did not find expected <section-end>''
             (ini_token_t.start_mark token))"

definition section_entry_start_m ::
  "'a ini_env \<Rightarrow> 'a ini_parser_t_scheme \<Rightarrow> ini_event_t \<Rightarrow> ini_token_t \<Rightarrow> 'a monitored_result"
where
  "section_entry_start_m env parser event token =
     (let start_mark' = ini_token_t.start_mark token in
      case skip_token_m parser of
        Inl e \<Rightarrow> Inl e
      | Inr parser \<Rightarrow>
      (case peek_token_m env parser of
        Inl e \<Rightarrow> Inl e
      | Inr (None, parser) \<Rightarrow> Inr (False, event, parser)
      | Inr (Some token, parser) \<Rightarrow>
      (case skip_token_m parser of
        Inl e \<Rightarrow> Inl e
      | Inr parser \<Rightarrow>
      if ini_token_t.typ token = ini_SCALAR_TOKEN
      then
        (let section_name = ini_token_t.value token in
         case peek_token_m env parser of
           Inl e \<Rightarrow> Inl e
         | Inr (None, parser) \<Rightarrow> Inr (False, event, parser)
         | Inr (Some token, parser) \<Rightarrow>
         (let end_mark' = ini_token_t.end_mark token in
          if ini_token_t.typ token = ini_SECTION_INHERIT_TOKEN
          then
            (case skip_token_m parser of
               Inl e \<Rightarrow> Inl e
             | Inr parser \<Rightarrow>
             (let section_name = append_bytes section_name (ini_token_t.value token) in
              case peek_token_m env parser of
                Inl e \<Rightarrow> Inl e
              | Inr (None, parser) \<Rightarrow> Inr (False, event, parser)
              | Inr (Some token, parser) \<Rightarrow>
              (case skip_token_m parser of
                 Inl e \<Rightarrow> Inl e
               | Inr parser \<Rightarrow>
               (let section_name = append_bytes section_name (ini_token_t.value token);
                    end_mark' = ini_token_t.end_mark token
                in
                if ini_token_t.typ token = ini_SCALAR_TOKEN
                then
                  (let parser = parser\<lparr>state := ini_PARSE_SECTION_FIRST_KEY_STATE\<rparr> in
                   case peek_token_m env parser of
                     Inl e \<Rightarrow> Inl e
                   | Inr (None, parser) \<Rightarrow> Inr (False, event, parser)
                   | Inr (Some token, parser) \<Rightarrow>
                       section_entry_end_m parser event token True start_mark' end_mark'
                         section_name (ini_SECTION_TAG env) (ini_SECTION_INHERIT_TAG env))
                else fail_with_m parser event ''did not find expected <scalar>''
                       (ini_token_t.start_mark token)))))
          else section_entry_end_m parser event token False start_mark' end_mark'
                 section_name (ini_SECTION_TAG env) (ini_SECTION_INHERIT_TAG env)))
      else fail_with_m parser event ''did not find expected <scalar>''
             (ini_token_t.start_mark token))))"

definition section_entry_section_end_m ::
  "'a ini_env \<Rightarrow> 'a ini_parser_t_scheme \<Rightarrow> ini_event_t \<Rightarrow> 'a monitored_result"
where
  "section_entry_section_end_m env parser event =
     (case skip_token_m parser of
        Inl e \<Rightarrow> Inl e
      | Inr parser \<Rightarrow>
      (case peek_token_m env parser of
        Inl e \<Rightarrow> Inl e
      | Inr (None, parser) \<Rightarrow> Inr (False, event, parser)
      | Inr (Some token, parser) \<Rightarrow>
      (case skip_token_m parser of
        Inl e \<Rightarrow> Inl e
      | Inr parser \<Rightarrow>
      if ini_token_t.typ token = ini_SECTION_KEY_TOKEN
      then
        (let start_mark' = ini_token_t.start_mark token in
         case peek_token_m env parser of
           Inl e \<Rightarrow> Inl e
         | Inr (None, parser) \<Rightarrow> Inr (False, event, parser)
         | Inr (Some token, parser) \<Rightarrow>
         (let end_mark' = ini_token_t.end_mark token in
          case skip_token_m parser of
            Inl e \<Rightarrow> Inl e
          | Inr parser \<Rightarrow>
              Inr (True,
                   \<lparr>typ = ini_SCALAR_EVENT,
                    start_mark = start_mark', end_mark = end_mark',
                    value = ini_token_t.value token,
                    tag = analyzeTag env (ini_token_t.value token),
                    implicit = False, style = 0\<rparr>,
                   parser\<lparr>state := ini_PARSE_SECTION_VALUE_STATE\<rparr>)))
      else fail_with_m parser event ''did not find expected <section-key>''
             (ini_token_t.start_mark token))))"

definition ini_parser_parse_section_entry_m ::
  "'a ini_env \<Rightarrow> 'a ini_parser_t_scheme \<Rightarrow> ini_event_t \<Rightarrow> bool \<Rightarrow> 'a monitored_result"
where
  "ini_parser_parse_section_entry_m env parser event first =
     (case peek_token_m env parser of
        Inl e \<Rightarrow> Inl e
      | Inr (None, parser) \<Rightarrow> Inr (False, event, parser)
      | Inr (Some token, parser) \<Rightarrow>
          if ini_token_t.typ token = ini_DOCUMENT_END_TOKEN
          then (if states parser = [] then Inl (panicked index_out_of_range)
                else Inr (True,
                          \<lparr>typ = ini_DOCUMENT_END_EVENT,
                           start_mark = ini_token_t.start_mark token,
                           end_mark = ini_token_t.end_mark token,
                           value = [], tag = [], implicit = False, style = 0\<rparr>,
                          parser\<lparr>state := last (states parser),
                                 states := butlast (states parser)\<rparr>))
          else if first \<and> ini_token_t.typ token = ini_SECTION_KEY_TOKEN
          then Inr (True,
                    \<lparr>typ = ini_SECTION_ENTRY_EVENT,
                     start_mark = ini_token_t.start_mark token,
                     end_mark = ini_token_t.start_mark token,
                     value = ''default'',
                     tag = ini_SECTION_TAG env,
                     implicit = False, style = 0\<rparr>,
                    parser\<lparr>state := ini_PARSE_SECTION_FIRST_KEY_STATE\<rparr>)
          else if ini_token_t.typ token = ini_SECTION_START_TOKEN
          then section_entry_start_m env parser event token
          else if ini_token_t.typ token = ini_SECTION_END_TOKEN
          then section_entry_section_end_m env parser event
          else fail_with_m parser event
                 ''did not find expected <section-start> or <section-key>''
                 (ini_token_t.start_mark token))"

definition ini_parser_parse_section_key_m ::
  "'a ini_env \<Rightarrow> 'a ini_parser_t_scheme \<Rightarrow> ini_event_t \<Rightarrow> bool \<Rightarrow> 'a monitored_result"
where
  "ini_parser_parse_section_key_m env parser event first =
     (case peek_token_m env parser of
        Inl e \<Rightarrow> Inl e
      | Inr (None, parser) \<Rightarrow> Inr (False, event, parser)
      | Inr (Some token, parser) \<Rightarrow>
          if ini_token_t.typ token = ini_SECTION_KEY_TOKEN
          then
            (case skip_token_m parser of
               Inl e \<Rightarrow> Inl e
             | Inr parser \<Rightarrow>
             (let start_mark' = ini_token_t.start_mark token in
              case peek_token_m env parser of
                Inl e \<Rightarrow> Inl e
              | Inr (None, parser) \<Rightarrow> Inr (False, event, parser)
              | Inr (Some token, parser) \<Rightarrow>
              (let end_mark' = ini_token_t.end_mark token in
               if ini_token_t.typ token = ini_SCALAR_TOKEN
               then
                 (case skip_token_m parser of
                    Inl e \<Rightarrow> Inl e
                  | Inr parser \<Rightarrow>
                      Inr (True,
                           \<lparr>typ = ini_SCALAR_EVENT,
                            start_mark = start_mark', end_mark = end_mark',
                            value = ini_token_t.value token,
                            tag = analyzeTag env (ini_token_t.value token),
                            implicit = False,
                            style = ini_token_t.style token\<rparr>,
                           parser\<lparr>state := ini_PARSE_SECTION_VALUE_STATE\<rparr>))
               else fail_with_m parser event ''did not find expected <scalar>''
                      (ini_token_t.start_mark token))))
          else Inr (True,
                    \<lparr>typ = ini_SECTION_ENTRY_EVENT,
                     start_mark = ini_token_t.start_mark token,
                     end_mark = ini_token_t.end_mark token,
                     value = [], tag = [], implicit = False, style = 0\<rparr>,
                    parser\<lparr>state := ini_PARSE_SECTION_ENTRY_STATE\<rparr>))"

definition ini_parser_parse_section_value_m ::
  "'a ini_env \<Rightarrow> 'a ini_parser_t_scheme \<Rightarrow> ini_event_t \<Rightarrow> 'a monitored_result"
where
  "ini_parser_parse_section_value_m env parser event =
     (case peek_token_m env parser of
        Inl e \<Rightarrow> Inl e
      | Inr (None, parser) \<Rightarrow> Inr (False, event, parser)
      | Inr (Some token, parser) \<Rightarrow>
          if ini_token_t.typ token = ini_SECTION_VALUE_TOKEN
          then
            (case skip_token_m parser of
               Inl e \<Rightarrow> Inl e
             | Inr parser \<Rightarrow>
             (let start_mark' = ini_token_t.start_mark token in
              case peek_token_m env parser of
                Inl e \<Rightarrow> Inl e
              | Inr (None, parser) \<Rightarrow> Inr (False, event, parser)
              | Inr (Some token, parser) \<Rightarrow>
              (let end_mark' = ini_token_t.end_mark token in
               if ini_token_t.typ token = ini_SCALAR_TOKEN
               then
                 (case skip_token_m parser of
                    Inl e \<Rightarrow> Inl e
                  | Inr parser \<Rightarrow>
                      Inr (True,
                           \<lparr>typ = ini_SCALAR_EVENT,
                            start_mark = start_mark', end_mark = end_mark',
                            value = ini_token_t.value token,
                            tag = analyzeTag env (ini_token_t.value token),
                            implicit = False,
                            style = ini_token_t.style token\<rparr>,
                           parser\<lparr>state := ini_PARSE_SECTION_KEY_STATE\<rparr>))
               else ini_parser_process_empty_scalar_m env
                      (parser\<lparr>state := ini_PARSE_SECTION_KEY_STATE\<rparr>) event
                      (ini_token_t.start_mark token))))
          else fail_with_m parser event ''did not find expected <section-value>''
                 (ini_token_t.start_mark token))"

definition ini_parser_state_machine_m ::
  "'a ini_env \<Rightarrow> 'a ini_parser_t_scheme \<Rightarrow> ini_event_t \<Rightarrow> 'a monitored_result"
where
  "ini_parser_state_machine_m env parser event =
     (case state parser of
        ini_PARSE_DOCUMENT_START_STATE \<Rightarrow> ini_parser_parse_document_start_m env parser event
      | ini_PARSE_SECTION_FIRST_ENTRY_STATE \<Rightarrow>
          ini_parser_parse_section_entry_m env parser event True
      | ini_PARSE_SECTION_ENTRY_STATE \<Rightarrow>
          ini_parser_parse_section_entry_m env parser event False
      | ini_PARSE_SECTION_FIRST_KEY_STATE \<Rightarrow>
          ini_parser_parse_section_key_m env parser event True
      | ini_PARSE_SECTION_KEY_STATE \<Rightarrow>
          ini_parser_parse_section_key_m env parser event False
      | ini_PARSE_SECTION_VALUE_STATE \<Rightarrow> ini_parser_parse_section_value_m env parser event
      | _ \<Rightarrow> Inl (panicked invalid_parser_state))"

definition ini_parser_parse_m ::
  "'a ini_env \<Rightarrow> 'a ini_parser_t_scheme \<Rightarrow> ini_event_t \<Rightarrow> 'a monitored_result"
where
  "ini_parser_parse_m env parser event =
     (let event = ini_event_zero in
      if document_end_produced parser \<or> error parser \<noteq> ini_NO_ERROR
           \<or> state parser = ini_PARSE_DOCUMENT_END_STATE
      then Inr (True, event, parser)
      else ini_parser_state_machine_m env parser event)"

text \<open>
  The monitored caller: \<open>n\<close> calls in a row, each monitored inside, and stopped as well
  when a call as a whole finds the flag true and leaves it false.
\<close>

fun ini_parser_parse_calls_m ::
  "'a ini_env \<Rightarrow> nat \<Rightarrow> 'a ini_parser_t_scheme \<Rightarrow> ini_event_t
     \<Rightarrow> monitor_stop + ((bool \<times> ini_event_t) list \<times> 'a ini_parser_t_scheme)"
where
  "ini_parser_parse_calls_m env 0 parser event = Inr ([], parser)"
| "ini_parser_parse_calls_m env (Suc n) parser event =
     (case ini_parser_parse_m env parser event of
        Inl e \<Rightarrow> Inl e
      | Inr (status, event, parser') \<Rightarrow>
          if resets_flag parser parser' then Inl flag_reset
          else (case ini_parser_parse_calls_m env n parser' event of
                  Inl e \<Rightarrow> Inl e
                | Inr (results, parser'') \<Rightarrow> Inr ((status, event) # results, parser'')))"

section \<open>Facts about the token source\<close>

lemma peek_token_Some:
  assumes "peek_token env p = Inr (Some tok, p1)"
  shows "tokens_head p1 < length (tokens p1)"
    and "tok = tokens p1 ! tokens_head p1"
    and "(token_available p \<and> p1 = p) \<or>
         (\<not> token_available p \<and> ini_parser_fetch_more_tokens env p = (True, p1))"
  using assms
  by (auto simp: peek_token_def tokens_at_head_def split: if_splits prod.splits sum.splits)

lemma peek_token_None:
  assumes "peek_token env p = Inr (None, p1)"
  shows "\<not> token_available p" and "ini_parser_fetch_more_tokens env p = (False, p1)"
  using assms
  by (auto simp: peek_token_def tokens_at_head_def split: if_splits prod.splits sum.splits)

text \<open>A token that was peeked and marked available is what the next peek returns.\<close>

lemma peek_token_again:
  assumes "peek_token env p = Inr (Some tok, p1)" and "token_available q"
    and "tokens q = tokens p1" and "tokens_head q = tokens_head p1"
  shows "peek_token env q = Inr (Some tok, q)"
  using peek_token_Some(1,2) [OF assms(1)] assms(2-)
  by (simp add: peek_token_def tokens_at_head_def)

lemma skip_token_Inr:
  assumes "tokens_head p < length (tokens p)"
  shows "skip_token p =
           Inr (p\<lparr>token_available := False,
                  tokens_parsed := tokens_parsed p + 1,
                  document_end_produced :=
                    (ini_token_t.typ (tokens p ! tokens_head p) = ini_DOCUMENT_END_TOKEN),
                  tokens_head := tokens_head p + 1\<rparr>)"
  using assms by (simp add: skip_token_def tokens_at_head_def)

lemma append_bytes_eq: "append_bytes name bytes = name @ bytes"
  unfolding append_bytes_def
  by (induction bytes arbitrary: name) simp_all

section \<open>Facts about the driver\<close>

text \<open>The guard of \<^verbatim>\<open>ini_parser_parse\<close>: when it fires, and when it lets the call through.\<close>

lemma parse_latched:
  assumes "document_end_produced p \<or> error p \<noteq> ini_NO_ERROR
             \<or> state p = ini_PARSE_DOCUMENT_END_STATE"
  shows "ini_parser_parse env p ev = Inr (True, ini_event_zero, p)"
  using assms by (auto simp: ini_parser_parse_def)

lemma parse_calls_latched:
  assumes "document_end_produced p \<or> error p \<noteq> ini_NO_ERROR
             \<or> state p = ini_PARSE_DOCUMENT_END_STATE"
  shows "ini_parser_parse_calls env n p ev = Inr (replicate n (True, ini_event_zero), p)"
proof (induction n arbitrary: ev)
  case 0
  show ?case by simp
next
  case (Suc n)
  show ?case by (simp add: parse_latched [OF assms] Suc.IH)
qed

lemma parse_dispatch:
  assumes "\<not> document_end_produced p" and "error p = ini_NO_ERROR"
    and "state p \<noteq> ini_PARSE_DOCUMENT_END_STATE"
  shows "ini_parser_parse env p ev = ini_parser_state_machine env p ini_event_zero"
  using assms by (simp add: ini_parser_parse_def)

lemma parse_section_entry:
  assumes "\<not> document_end_produced p" and "error p = ini_NO_ERROR"
    and "state p = ini_PARSE_SECTION_FIRST_ENTRY_STATE
           \<or> state p = ini_PARSE_SECTION_ENTRY_STATE"
  shows "ini_parser_parse env p ev =
           ini_parser_parse_section_entry env p ini_event_zero
             (state p = ini_PARSE_SECTION_FIRST_ENTRY_STATE)"
  using assms by (auto simp: ini_parser_parse_def ini_parser_state_machine_def)

text \<open>Evaluating the model on the sample parameters.\<close>

lemmas sample_defs =
  sample_env_def fetch_queued_def parser_over_def token_of_def mark_at_def
  ini_event_zero_def ini_mark_zero_def ini_PLAIN_SCALAR_STYLE_def

lemmas step_defs =
  ini_parser_parse_def ini_parser_state_machine_def ini_parser_parse_document_start_def
  ini_parser_parse_section_entry_def section_entry_start_def section_entry_end_def
  section_entry_section_end_def ini_parser_parse_section_key_def
  ini_parser_parse_section_value_def ini_parser_process_empty_scalar_def
  fail_with_def ini_parser_set_parser_error_def
  peek_token_def skip_token_def tokens_at_head_def append_bytes_eq

section \<open>Default section synthesis\<close>

text \<open>
  C3: when the parser is in the Section-First-Entry state and the lookahead is a
  section-key token, the call emits a synthetic Section-Entry event whose value is
  "default", whose tag is the section tag and whose range is zero-width at the key
  token's start mark; it moves to the Section-First-Key state and consumes nothing (the
  parser is the one the peek left, but for its state), so the same key token, which the
  token source has marked available, is what the next call peeks.
\<close>

theorem section_first_entry_default_section:
  assumes "\<not> document_end_produced p" and "error p = ini_NO_ERROR"
    and "state p = ini_PARSE_SECTION_FIRST_ENTRY_STATE"
    and "peek_token env p = Inr (Some tok, p1)"
    and "ini_token_t.typ tok = ini_SECTION_KEY_TOKEN"
  shows "ini_parser_parse env p ev =
           Inr (True,
                \<lparr>typ = ini_SECTION_ENTRY_EVENT,
                 start_mark = ini_token_t.start_mark tok,
                 end_mark = ini_token_t.start_mark tok,
                 value = ''default'', tag = ini_SECTION_TAG env,
                 implicit = False, style = 0\<rparr>,
                p1\<lparr>state := ini_PARSE_SECTION_FIRST_KEY_STATE\<rparr>)
         \<and> (token_available p1 \<longrightarrow>
              peek_token env (p1\<lparr>state := ini_PARSE_SECTION_FIRST_KEY_STATE\<rparr>) =
                Inr (Some tok, p1\<lparr>state := ini_PARSE_SECTION_FIRST_KEY_STATE\<rparr>))"
proof -
  have "ini_parser_parse env p ev = ini_parser_parse_section_entry env p ini_event_zero True"
    using assms(1-3) by (simp add: ini_parser_parse_def ini_parser_state_machine_def)
  moreover have "ini_parser_parse_section_entry env p ini_event_zero True =
      Inr (True,
           \<lparr>typ = ini_SECTION_ENTRY_EVENT,
            start_mark = ini_token_t.start_mark tok,
            end_mark = ini_token_t.start_mark tok,
            value = ''default'', tag = ini_SECTION_TAG env,
            implicit = False, style = 0\<rparr>,
           p1\<lparr>state := ini_PARSE_SECTION_FIRST_KEY_STATE\<rparr>)"
    using assms(4,5) by (simp add: ini_parser_parse_section_entry_def)
  moreover have "token_available p1 \<Longrightarrow>
      peek_token env (p1\<lparr>state := ini_PARSE_SECTION_FIRST_KEY_STATE\<rparr>) =
        Inr (Some tok, p1\<lparr>state := ini_PARSE_SECTION_FIRST_KEY_STATE\<rparr>)"
    using peek_token_again [OF assms(4)] by simp
  ultimately show ?thesis by simp
qed

theorem section_first_entry_default_section_witness:
  "peek_token sample_env
     (parser_over ini_PARSE_SECTION_FIRST_ENTRY_STATE [ini_PARSE_DOCUMENT_END_STATE]
        [token_of ini_SECTION_KEY_TOKEN 0 0 [], token_of ini_SCALAR_TOKEN 0 1 ''k''])
     = Inr (Some (token_of ini_SECTION_KEY_TOKEN 0 0 []),
            (parser_over ini_PARSE_SECTION_FIRST_ENTRY_STATE [ini_PARSE_DOCUMENT_END_STATE]
               [token_of ini_SECTION_KEY_TOKEN 0 0 [], token_of ini_SCALAR_TOKEN 0 1 ''k''])
              \<lparr>token_available := True\<rparr>)
   \<and> ini_parser_parse sample_env
       (parser_over ini_PARSE_SECTION_FIRST_ENTRY_STATE [ini_PARSE_DOCUMENT_END_STATE]
          [token_of ini_SECTION_KEY_TOKEN 0 0 [], token_of ini_SCALAR_TOKEN 0 1 ''k''])
       ini_event_zero
     = Inr (True,
            \<lparr>typ = ini_SECTION_ENTRY_EVENT, start_mark = mark_at 0, end_mark = mark_at 0,
             value = ''default'', tag = ''!!section'', implicit = False, style = 0\<rparr>,
            (parser_over ini_PARSE_SECTION_FIRST_ENTRY_STATE [ini_PARSE_DOCUMENT_END_STATE]
               [token_of ini_SECTION_KEY_TOKEN 0 0 [], token_of ini_SCALAR_TOKEN 0 1 ''k''])
              \<lparr>token_available := True, state := ini_PARSE_SECTION_FIRST_KEY_STATE\<rparr>)
   \<and> peek_token sample_env
       ((parser_over ini_PARSE_SECTION_FIRST_ENTRY_STATE [ini_PARSE_DOCUMENT_END_STATE]
           [token_of ini_SECTION_KEY_TOKEN 0 0 [], token_of ini_SCALAR_TOKEN 0 1 ''k''])
          \<lparr>token_available := True, state := ini_PARSE_SECTION_FIRST_KEY_STATE\<rparr>)
     = Inr (Some (token_of ini_SECTION_KEY_TOKEN 0 0 []),
            (parser_over ini_PARSE_SECTION_FIRST_ENTRY_STATE [ini_PARSE_DOCUMENT_END_STATE]
               [token_of ini_SECTION_KEY_TOKEN 0 0 [], token_of ini_SCALAR_TOKEN 0 1 ''k''])
              \<lparr>token_available := True, state := ini_PARSE_SECTION_FIRST_KEY_STATE\<rparr>)"
proof -
  let ?p = "parser_over ini_PARSE_SECTION_FIRST_ENTRY_STATE [ini_PARSE_DOCUMENT_END_STATE]
        [token_of ini_SECTION_KEY_TOKEN 0 0 [], token_of ini_SCALAR_TOKEN 0 1 ''k'']"
  have peek: "peek_token sample_env ?p =
      Inr (Some (token_of ini_SECTION_KEY_TOKEN 0 0 []), ?p\<lparr>token_available := True\<rparr>)"
    by (simp add: peek_token_def tokens_at_head_def sample_env_def fetch_queued_def
        parser_over_def)
  have "\<not> document_end_produced ?p" "error ?p = ini_NO_ERROR"
    "state ?p = ini_PARSE_SECTION_FIRST_ENTRY_STATE"
    "ini_token_t.typ (token_of ini_SECTION_KEY_TOKEN 0 0 []) = ini_SECTION_KEY_TOKEN"
    by (simp_all add: parser_over_def token_of_def)
  from section_first_entry_default_section [OF this(1-3) peek this(4), of ini_event_zero] peek
  show ?thesis
    by (simp add: sample_env_def token_of_def)
qed

section \<open>The document-end token\<close>





section \<open>The boundary event of the key states\<close>

lemma section_key_other_token:
  assumes "peek_token env p = Inr (Some tok, p1)"
    and "ini_token_t.typ tok \<noteq> ini_SECTION_KEY_TOKEN"
  shows "ini_parser_parse_section_key env p ev first =
           Inr (True,
                \<lparr>typ = ini_SECTION_ENTRY_EVENT,
                 start_mark = ini_token_t.start_mark tok,
                 end_mark = ini_token_t.end_mark tok,
                 value = [], tag = [], implicit = False, style = 0\<rparr>,
                p1\<lparr>state := ini_PARSE_SECTION_ENTRY_STATE\<rparr>)"
  using assms by (simp add: ini_parser_parse_section_key_def)

text \<open>
  C5, as the code has it: in the Section-Key state, for every lookahead token that is not
  a section-key token, the call emits a boundary Section-Entry event (no value, no tag)
  whose range runs from the lookahead token's start mark to its end mark, consumes
  nothing (the parser is the one the peek left, but for its state, and the same token,
  once marked available, is what the next peek returns) and moves to the Section-Entry
  state.
\<close>

theorem section_key_boundary_event:
  assumes "\<not> document_end_produced p" and "error p = ini_NO_ERROR"
    and "state p = ini_PARSE_SECTION_KEY_STATE"
    and "peek_token env p = Inr (Some tok, p1)"
    and "ini_token_t.typ tok \<noteq> ini_SECTION_KEY_TOKEN"
  shows "ini_parser_parse env p ev =
           Inr (True,
                \<lparr>typ = ini_SECTION_ENTRY_EVENT,
                 start_mark = ini_token_t.start_mark tok,
                 end_mark = ini_token_t.end_mark tok,
                 value = [], tag = [], implicit = False, style = 0\<rparr>,
                p1\<lparr>state := ini_PARSE_SECTION_ENTRY_STATE\<rparr>)
         \<and> (token_available p1 \<longrightarrow>
              peek_token env (p1\<lparr>state := ini_PARSE_SECTION_ENTRY_STATE\<rparr>) =
                Inr (Some tok, p1\<lparr>state := ini_PARSE_SECTION_ENTRY_STATE\<rparr>))"
proof -
  have "ini_parser_parse env p ev = ini_parser_parse_section_key env p ini_event_zero False"
    using assms(1-3) by (simp add: parse_dispatch ini_parser_state_machine_def)
  moreover have "token_available p1 \<Longrightarrow>
      peek_token env (p1\<lparr>state := ini_PARSE_SECTION_ENTRY_STATE\<rparr>) =
        Inr (Some tok, p1\<lparr>state := ini_PARSE_SECTION_ENTRY_STATE\<rparr>)"
    using peek_token_again [OF assms(4)] by simp
  ultimately show ?thesis
    using section_key_other_token [OF assms(4,5)] by simp
qed

theorem section_key_boundary_event_witness:
  "ini_parser_parse sample_env
     (parser_over ini_PARSE_SECTION_KEY_STATE [ini_PARSE_DOCUMENT_END_STATE]
        [token_of ini_DOCUMENT_END_TOKEN 7 7 []])
     ini_event_zero
   = Inr (True,
          \<lparr>typ = ini_SECTION_ENTRY_EVENT, start_mark = mark_at 7, end_mark = mark_at 7,
           value = [], tag = [], implicit = False, style = 0\<rparr>,
          (parser_over ini_PARSE_SECTION_KEY_STATE [ini_PARSE_DOCUMENT_END_STATE]
             [token_of ini_DOCUMENT_END_TOKEN 7 7 []])
            \<lparr>token_available := True, state := ini_PARSE_SECTION_ENTRY_STATE\<rparr>)"
proof -
  let ?p = "parser_over ini_PARSE_SECTION_KEY_STATE [ini_PARSE_DOCUMENT_END_STATE]
        [token_of ini_DOCUMENT_END_TOKEN 7 7 []]"
  have peek: "peek_token sample_env ?p =
      Inr (Some (token_of ini_DOCUMENT_END_TOKEN 7 7 []), ?p\<lparr>token_available := True\<rparr>)"
    by (simp add: peek_token_def tokens_at_head_def sample_defs)
  have "\<not> document_end_produced ?p" "error ?p = ini_NO_ERROR"
    "state ?p = ini_PARSE_SECTION_KEY_STATE"
    "ini_token_t.typ (token_of ini_DOCUMENT_END_TOKEN 7 7 []) \<noteq> ini_SECTION_KEY_TOKEN"
    by (simp_all add: parser_over_def token_of_def)
  from section_key_boundary_event [OF this(1-3) peek this(4), of ini_event_zero]
  show ?thesis
    by (simp add: token_of_def)
qed

text \<open>
  The claim as stated fails: with a section-start token over bytes 4 to 5 as the
  lookahead (already peeked, so no tokenizer is involved), the boundary event runs from 4
  to 5; its range is not zero-width.
\<close>

theorem section_key_boundary_not_zero_width:
  "ini_parser_parse sample_env
     ((parser_over ini_PARSE_SECTION_KEY_STATE [ini_PARSE_DOCUMENT_END_STATE]
         [token_of ini_SECTION_START_TOKEN 4 5 ''['']) \<lparr>token_available := True\<rparr>)
     ini_event_zero
   = Inr (True,
          \<lparr>typ = ini_SECTION_ENTRY_EVENT, start_mark = mark_at 4, end_mark = mark_at 5,
           value = [], tag = [], implicit = False, style = 0\<rparr>,
          (parser_over ini_PARSE_SECTION_KEY_STATE [ini_PARSE_DOCUMENT_END_STATE]
             [token_of ini_SECTION_START_TOKEN 4 5 ''[''])
            \<lparr>token_available := True, state := ini_PARSE_SECTION_ENTRY_STATE\<rparr>)
   \<and> mark_at 4 \<noteq> mark_at 5"
  by (simp add: step_defs sample_defs)

text \<open>
  C10: the Go function \<^verbatim>\<open>ini_parser_parse_section_key\<close> never reads \<^verbatim>\<open>first\<close>. In the
  Section-First-Key state a lookahead token that is not a section-key token gives the
  same non-consuming boundary Section-Entry event and the same move to the Section-Entry
  state as in the Section-Key state, with a success status; the call is the call of the
  non-first function, and the two functions agree on every parser.
\<close>

theorem section_first_key_boundary_same:
  assumes "\<not> document_end_produced p" and "error p = ini_NO_ERROR"
    and "state p = ini_PARSE_SECTION_FIRST_KEY_STATE"
    and "peek_token env p = Inr (Some tok, p1)"
    and "ini_token_t.typ tok \<noteq> ini_SECTION_KEY_TOKEN"
  shows "ini_parser_parse env p ev =
           Inr (True,
                \<lparr>typ = ini_SECTION_ENTRY_EVENT,
                 start_mark = ini_token_t.start_mark tok,
                 end_mark = ini_token_t.end_mark tok,
                 value = [], tag = [], implicit = False, style = 0\<rparr>,
                p1\<lparr>state := ini_PARSE_SECTION_ENTRY_STATE\<rparr>)
         \<and> ini_parser_parse env p ev = ini_parser_parse_section_key env p ini_event_zero False
         \<and> ini_parser_parse_section_key env q ev' True =
             ini_parser_parse_section_key env q ev' False"
proof -
  have "ini_parser_parse env p ev = ini_parser_parse_section_key env p ini_event_zero True"
    using assms(1-3) by (simp add: parse_dispatch ini_parser_state_machine_def)
  moreover have "ini_parser_parse_section_key env q' ev'' True =
      ini_parser_parse_section_key env q' ev'' False" for q' ev''
    by (simp add: ini_parser_parse_section_key_def)
  ultimately show ?thesis
    using section_key_other_token [OF assms(4,5)] by simp
qed

text \<open>
  The section without properties, \<^verbatim>\<open>[s]\<close> and then the document-end token: the first
  call emits the section entry, the second the boundary event, not an error.
\<close>

theorem section_first_key_boundary_same_witness:
  "ini_parser_parse sample_env
     (parser_over ini_PARSE_SECTION_FIRST_ENTRY_STATE [ini_PARSE_DOCUMENT_END_STATE]
        [token_of ini_SECTION_START_TOKEN 0 1 ''['', token_of ini_SCALAR_TOKEN 1 2 ''s'',
         token_of ini_SECTION_END_TOKEN 2 3 '']'', token_of ini_DOCUMENT_END_TOKEN 3 3 []])
     ini_event_zero
   = Inr (True,
          \<lparr>typ = ini_SECTION_ENTRY_EVENT, start_mark = mark_at 0, end_mark = mark_at 3,
           value = ''s'', tag = ''!!section'', implicit = False,
           style = ini_PLAIN_SCALAR_STYLE\<rparr>,
          (parser_over ini_PARSE_SECTION_FIRST_KEY_STATE [ini_PARSE_DOCUMENT_END_STATE]
             [token_of ini_SECTION_START_TOKEN 0 1 ''['', token_of ini_SCALAR_TOKEN 1 2 ''s'',
              token_of ini_SECTION_END_TOKEN 2 3 '']'', token_of ini_DOCUMENT_END_TOKEN 3 3 []])
            \<lparr>tokens_head := 3, tokens_parsed := 3\<rparr>)
   \<and> ini_parser_parse sample_env
       ((parser_over ini_PARSE_SECTION_FIRST_KEY_STATE [ini_PARSE_DOCUMENT_END_STATE]
           [token_of ini_SECTION_START_TOKEN 0 1 ''['', token_of ini_SCALAR_TOKEN 1 2 ''s'',
            token_of ini_SECTION_END_TOKEN 2 3 '']'', token_of ini_DOCUMENT_END_TOKEN 3 3 []])
          \<lparr>tokens_head := 3, tokens_parsed := 3\<rparr>)
       ini_event_zero
     = Inr (True,
            \<lparr>typ = ini_SECTION_ENTRY_EVENT, start_mark = mark_at 3, end_mark = mark_at 3,
             value = [], tag = [], implicit = False, style = 0\<rparr>,
            (parser_over ini_PARSE_SECTION_ENTRY_STATE [ini_PARSE_DOCUMENT_END_STATE]
               [token_of ini_SECTION_START_TOKEN 0 1 ''['', token_of ini_SCALAR_TOKEN 1 2 ''s'',
                token_of ini_SECTION_END_TOKEN 2 3 '']'', token_of ini_DOCUMENT_END_TOKEN 3 3 []])
              \<lparr>tokens_head := 3, tokens_parsed := 3, token_available := True\<rparr>)"
proof -
  let ?q = "[token_of ini_SECTION_START_TOKEN 0 1 ''['', token_of ini_SCALAR_TOKEN 1 2 ''s'',
      token_of ini_SECTION_END_TOKEN 2 3 '']'', token_of ini_DOCUMENT_END_TOKEN 3 3 []]"
  let ?p = "(parser_over ini_PARSE_SECTION_FIRST_KEY_STATE [ini_PARSE_DOCUMENT_END_STATE] ?q)
              \<lparr>tokens_head := 3, tokens_parsed := 3\<rparr>"
  have header: "ini_parser_parse sample_env
      (parser_over ini_PARSE_SECTION_FIRST_ENTRY_STATE [ini_PARSE_DOCUMENT_END_STATE] ?q)
      ini_event_zero
    = Inr (True,
          \<lparr>typ = ini_SECTION_ENTRY_EVENT, start_mark = mark_at 0, end_mark = mark_at 3,
           value = ''s'', tag = ''!!section'', implicit = False,
           style = ini_PLAIN_SCALAR_STYLE\<rparr>, ?p)"
    by (simp add: step_defs sample_defs)
  have peek: "peek_token sample_env ?p =
      Inr (Some (token_of ini_DOCUMENT_END_TOKEN 3 3 []), ?p\<lparr>token_available := True\<rparr>)"
    by (simp add: peek_token_def tokens_at_head_def sample_defs)
  have "\<not> document_end_produced ?p" "error ?p = ini_NO_ERROR"
    "state ?p = ini_PARSE_SECTION_FIRST_KEY_STATE"
    "ini_token_t.typ (token_of ini_DOCUMENT_END_TOKEN 3 3 []) \<noteq> ini_SECTION_KEY_TOKEN"
    by (simp_all add: parser_over_def token_of_def)
  from section_first_key_boundary_same [OF this(1-3) peek this(4), of ini_event_zero]
  have "ini_parser_parse sample_env ?p ini_event_zero =
      Inr (True,
           \<lparr>typ = ini_SECTION_ENTRY_EVENT, start_mark = mark_at 3, end_mark = mark_at 3,
            value = [], tag = [], implicit = False, style = 0\<rparr>,
           ?p\<lparr>token_available := True, state := ini_PARSE_SECTION_ENTRY_STATE\<rparr>)"
    by (simp add: token_of_def)
  with header show ?thesis
    by (simp add: parser_over_def)
qed

section \<open>A key without a value\<close>

text \<open>
  C7: in the Section-Value state, when the lookahead is a section-value token and the
  token after it is not a scalar token, the call consumes the marker only (the queue head
  advances by one) and emits a Scalar event with empty value, the null tag, the plain
  style and a zero-width range at the start mark of the token that is not a scalar; it
  moves to the Section-Key state and leaves that token, once marked available, as the
  lookahead of the next call.
\<close>

theorem section_value_missing_value:
  assumes "\<not> document_end_produced p" and "error p = ini_NO_ERROR"
    and "state p = ini_PARSE_SECTION_VALUE_STATE"
    and "peek_token env p = Inr (Some marker, p1)"
    and "ini_token_t.typ marker = ini_SECTION_VALUE_TOKEN"
    and "skip_token p1 = Inr p2"
    and "peek_token env p2 = Inr (Some tok, p3)"
    and "ini_token_t.typ tok \<noteq> ini_SCALAR_TOKEN"
  shows "ini_parser_parse env p ev =
           Inr (True,
                \<lparr>typ = ini_SCALAR_EVENT,
                 start_mark = ini_token_t.start_mark tok,
                 end_mark = ini_token_t.start_mark tok,
                 value = [], tag = ini_NULL_TAG env, implicit = False,
                 style = ini_PLAIN_SCALAR_STYLE\<rparr>,
                p3\<lparr>state := ini_PARSE_SECTION_KEY_STATE\<rparr>)
         \<and> tokens_head p2 = tokens_head p1 + 1
         \<and> (token_available p3 \<longrightarrow>
              peek_token env (p3\<lparr>state := ini_PARSE_SECTION_KEY_STATE\<rparr>) =
                Inr (Some tok, p3\<lparr>state := ini_PARSE_SECTION_KEY_STATE\<rparr>))"
proof -
  have "ini_parser_parse env p ev = ini_parser_parse_section_value env p ini_event_zero"
    using assms(1-3) by (simp add: parse_dispatch ini_parser_state_machine_def)
  moreover have "ini_parser_parse_section_value env p ini_event_zero =
      Inr (True,
           \<lparr>typ = ini_SCALAR_EVENT,
            start_mark = ini_token_t.start_mark tok,
            end_mark = ini_token_t.start_mark tok,
            value = [], tag = ini_NULL_TAG env, implicit = False,
            style = ini_PLAIN_SCALAR_STYLE\<rparr>,
           p3\<lparr>state := ini_PARSE_SECTION_KEY_STATE\<rparr>)"
    using assms(4-8)
    by (simp add: ini_parser_parse_section_value_def ini_parser_process_empty_scalar_def)
  moreover have "tokens_head p2 = tokens_head p1 + 1"
    using assms(6) skip_token_Inr [OF peek_token_Some(1) [OF assms(4)]] by auto
  moreover have "token_available p3 \<Longrightarrow>
      peek_token env (p3\<lparr>state := ini_PARSE_SECTION_KEY_STATE\<rparr>) =
        Inr (Some tok, p3\<lparr>state := ini_PARSE_SECTION_KEY_STATE\<rparr>)"
    using peek_token_again [OF assms(7)] by simp
  ultimately show ?thesis by simp
qed

text \<open>The input \<^verbatim>\<open>k =\<close> at the end of the document, after the key was parsed.\<close>

theorem section_value_missing_value_witness:
  "ini_parser_parse sample_env
     (parser_over ini_PARSE_SECTION_VALUE_STATE [ini_PARSE_DOCUMENT_END_STATE]
        [token_of ini_SECTION_VALUE_TOKEN 1 2 ''='', token_of ini_DOCUMENT_END_TOKEN 2 2 []])
     ini_event_zero
   = Inr (True,
          \<lparr>typ = ini_SCALAR_EVENT, start_mark = mark_at 2, end_mark = mark_at 2,
           value = [], tag = ''!!null'', implicit = False, style = ini_PLAIN_SCALAR_STYLE\<rparr>,
          (parser_over ini_PARSE_SECTION_KEY_STATE [ini_PARSE_DOCUMENT_END_STATE]
             [token_of ini_SECTION_VALUE_TOKEN 1 2 ''='', token_of ini_DOCUMENT_END_TOKEN 2 2 []])
            \<lparr>tokens_head := 1, tokens_parsed := 1, token_available := True\<rparr>)
   \<and> peek_token sample_env
       ((parser_over ini_PARSE_SECTION_KEY_STATE [ini_PARSE_DOCUMENT_END_STATE]
           [token_of ini_SECTION_VALUE_TOKEN 1 2 ''='', token_of ini_DOCUMENT_END_TOKEN 2 2 []])
          \<lparr>tokens_head := 1, tokens_parsed := 1, token_available := True\<rparr>)
     = Inr (Some (token_of ini_DOCUMENT_END_TOKEN 2 2 []),
            (parser_over ini_PARSE_SECTION_KEY_STATE [ini_PARSE_DOCUMENT_END_STATE]
               [token_of ini_SECTION_VALUE_TOKEN 1 2 ''='', token_of ini_DOCUMENT_END_TOKEN 2 2 []])
              \<lparr>tokens_head := 1, tokens_parsed := 1, token_available := True\<rparr>)"
proof -
  let ?p = "parser_over ini_PARSE_SECTION_VALUE_STATE [ini_PARSE_DOCUMENT_END_STATE]
      [token_of ini_SECTION_VALUE_TOKEN 1 2 ''='', token_of ini_DOCUMENT_END_TOKEN 2 2 []]"
  let ?p1 = "?p\<lparr>token_available := True\<rparr>"
  let ?p2 = "?p\<lparr>tokens_head := 1, tokens_parsed := 1\<rparr>"
  let ?p3 = "?p\<lparr>tokens_head := 1, tokens_parsed := 1, token_available := True\<rparr>"
  have "\<not> document_end_produced ?p" "error ?p = ini_NO_ERROR"
    "state ?p = ini_PARSE_SECTION_VALUE_STATE"
    "peek_token sample_env ?p = Inr (Some (token_of ini_SECTION_VALUE_TOKEN 1 2 ''=''), ?p1)"
    "ini_token_t.typ (token_of ini_SECTION_VALUE_TOKEN 1 2 ''='') = ini_SECTION_VALUE_TOKEN"
    "skip_token ?p1 = Inr ?p2"
    "peek_token sample_env ?p2 = Inr (Some (token_of ini_DOCUMENT_END_TOKEN 2 2 []), ?p3)"
    "ini_token_t.typ (token_of ini_DOCUMENT_END_TOKEN 2 2 []) \<noteq> ini_SCALAR_TOKEN"
    by (simp_all add: peek_token_def skip_token_def tokens_at_head_def sample_defs)
  from section_value_missing_value [OF this, of ini_event_zero]
  show ?thesis
    by (simp add: sample_defs)
qed

section \<open>Section headers\<close>

text \<open>
  C4: for a section header, that is a section-start token, a scalar token (the child
  name) and then either an inherit token, a scalar token (the parent name) and a
  section-end token, or a section-end token at once, one call emits one Section-Entry
  event. With the inherit clause its tag is the section-inherit tag and its value is the
  child's bytes, then the inherit token's bytes, then the parent's bytes; without the
  clause its tag is the section tag and its value is the name's bytes alone. Each token
  is named by the peek that returns it and the consume that follows.
\<close>

theorem section_header_value:
  assumes "\<not> document_end_produced p" and "error p = ini_NO_ERROR"
    and "state p = ini_PARSE_SECTION_FIRST_ENTRY_STATE
           \<or> state p = ini_PARSE_SECTION_ENTRY_STATE"
    and "peek_token env p = Inr (Some opening, p1)"
    and "ini_token_t.typ opening = ini_SECTION_START_TOKEN"
    and "skip_token p1 = Inr p2"
    and "peek_token env p2 = Inr (Some child, p3)"
    and "ini_token_t.typ child = ini_SCALAR_TOKEN"
    and "skip_token p3 = Inr p4"
    and "peek_token env p4 = Inr (Some tok, p5)"
    and "skip_token p5 = Inr p6"
  shows "(ini_token_t.typ tok = ini_SECTION_INHERIT_TOKEN
          \<and> peek_token env p6 = Inr (Some parent, p7)
          \<and> ini_token_t.typ parent = ini_SCALAR_TOKEN
          \<and> skip_token p7 = Inr p8
          \<and> peek_token env (p8\<lparr>state := ini_PARSE_SECTION_FIRST_KEY_STATE\<rparr>)
                = Inr (Some closing, p9)
          \<and> ini_token_t.typ closing = ini_SECTION_END_TOKEN
          \<and> skip_token p9 = Inr p10
          \<longrightarrow> ini_parser_parse env p ev =
                Inr (True,
                     \<lparr>typ = ini_SECTION_ENTRY_EVENT,
                      start_mark = ini_token_t.start_mark opening,
                      end_mark = ini_token_t.end_mark parent,
                      value = ini_token_t.value child @ ini_token_t.value tok
                                @ ini_token_t.value parent,
                      tag = ini_SECTION_INHERIT_TAG env,
                      implicit = False,
                      style = ini_token_t.style closing\<rparr>,
                     p10\<lparr>state := ini_PARSE_SECTION_FIRST_KEY_STATE\<rparr>))
       \<and> (ini_token_t.typ tok = ini_SECTION_END_TOKEN
          \<longrightarrow> ini_parser_parse env p ev =
                Inr (True,
                     \<lparr>typ = ini_SECTION_ENTRY_EVENT,
                      start_mark = ini_token_t.start_mark opening,
                      end_mark = ini_token_t.end_mark tok,
                      value = ini_token_t.value child,
                      tag = ini_SECTION_TAG env,
                      implicit = False,
                      style = ini_token_t.style tok\<rparr>,
                     p6\<lparr>state := ini_PARSE_SECTION_FIRST_KEY_STATE\<rparr>))"
proof -
  have start: "ini_parser_parse env p ev = section_entry_start env p1 ini_event_zero opening"
    using parse_section_entry [OF assms(1-3)] assms(4,5)
    by (simp add: ini_parser_parse_section_entry_def)
  show ?thesis
    unfolding start
    using assms(5-11)
    by (simp add: section_entry_start_def section_entry_end_def append_bytes_eq)
qed

text \<open>The headers \<^verbatim>\<open>[child:parent]\<close> and \<^verbatim>\<open>[s]\<close>.\<close>

theorem section_header_value_witness:
  "ini_parser_parse sample_env
     (parser_over ini_PARSE_SECTION_FIRST_ENTRY_STATE [ini_PARSE_DOCUMENT_END_STATE]
        [token_of ini_SECTION_START_TOKEN 0 1 ''['', token_of ini_SCALAR_TOKEN 1 6 ''child'',
         token_of ini_SECTION_INHERIT_TOKEN 6 7 '':'', token_of ini_SCALAR_TOKEN 7 13 ''parent'',
         token_of ini_SECTION_END_TOKEN 13 14 '']''])
     ini_event_zero
   = Inr (True,
          \<lparr>typ = ini_SECTION_ENTRY_EVENT, start_mark = mark_at 0, end_mark = mark_at 13,
           value = ''child:parent'', tag = ''!!inherit'', implicit = False,
           style = ini_PLAIN_SCALAR_STYLE\<rparr>,
          (parser_over ini_PARSE_SECTION_FIRST_KEY_STATE [ini_PARSE_DOCUMENT_END_STATE]
             [token_of ini_SECTION_START_TOKEN 0 1 ''['', token_of ini_SCALAR_TOKEN 1 6 ''child'',
              token_of ini_SECTION_INHERIT_TOKEN 6 7 '':'',
              token_of ini_SCALAR_TOKEN 7 13 ''parent'',
              token_of ini_SECTION_END_TOKEN 13 14 '']''])
            \<lparr>tokens_head := 5, tokens_parsed := 5\<rparr>)
   \<and> ini_parser_parse sample_env
       (parser_over ini_PARSE_SECTION_ENTRY_STATE [ini_PARSE_DOCUMENT_END_STATE]
          [token_of ini_SECTION_START_TOKEN 0 1 ''['', token_of ini_SCALAR_TOKEN 1 2 ''s'',
           token_of ini_SECTION_END_TOKEN 2 3 '']''])
       ini_event_zero
     = Inr (True,
            \<lparr>typ = ini_SECTION_ENTRY_EVENT, start_mark = mark_at 0, end_mark = mark_at 3,
             value = ''s'', tag = ''!!section'', implicit = False,
             style = ini_PLAIN_SCALAR_STYLE\<rparr>,
            (parser_over ini_PARSE_SECTION_FIRST_KEY_STATE [ini_PARSE_DOCUMENT_END_STATE]
               [token_of ini_SECTION_START_TOKEN 0 1 ''['', token_of ini_SCALAR_TOKEN 1 2 ''s'',
                token_of ini_SECTION_END_TOKEN 2 3 '']''])
              \<lparr>tokens_head := 3, tokens_parsed := 3\<rparr>)"
proof -
  let ?t1 = "token_of ini_SECTION_START_TOKEN 0 1 ''[''"
  let ?t2 = "token_of ini_SCALAR_TOKEN 1 6 ''child''"
  let ?t3 = "token_of ini_SECTION_INHERIT_TOKEN 6 7 '':''"
  let ?t4 = "token_of ini_SCALAR_TOKEN 7 13 ''parent''"
  let ?t5 = "token_of ini_SECTION_END_TOKEN 13 14 '']''"
  let ?p = "parser_over ini_PARSE_SECTION_FIRST_ENTRY_STATE [ini_PARSE_DOCUMENT_END_STATE]
      [?t1, ?t2, ?t3, ?t4, ?t5]"
  let ?at = "\<lambda>h a. ?p\<lparr>tokens_head := h, tokens_parsed := of_nat h, token_available := a\<rparr>"
  let ?s = "ini_PARSE_SECTION_FIRST_KEY_STATE"
  have common: "\<not> document_end_produced ?p" "error ?p = ini_NO_ERROR"
    "state ?p = ini_PARSE_SECTION_FIRST_ENTRY_STATE
       \<or> state ?p = ini_PARSE_SECTION_ENTRY_STATE"
    "peek_token sample_env ?p = Inr (Some ?t1, ?at 0 True)"
    "ini_token_t.typ ?t1 = ini_SECTION_START_TOKEN"
    "skip_token (?at 0 True) = Inr (?at 1 False)"
    "peek_token sample_env (?at 1 False) = Inr (Some ?t2, ?at 1 True)"
    "ini_token_t.typ ?t2 = ini_SCALAR_TOKEN"
    "skip_token (?at 1 True) = Inr (?at 2 False)"
    "peek_token sample_env (?at 2 False) = Inr (Some ?t3, ?at 2 True)"
    "skip_token (?at 2 True) = Inr (?at 3 False)"
    by (simp_all add: peek_token_def skip_token_def tokens_at_head_def sample_defs)
  have inherit: "ini_token_t.typ ?t3 = ini_SECTION_INHERIT_TOKEN
      \<and> peek_token sample_env (?at 3 False) = Inr (Some ?t4, ?at 3 True)
      \<and> ini_token_t.typ ?t4 = ini_SCALAR_TOKEN
      \<and> skip_token (?at 3 True) = Inr (?at 4 False)
      \<and> peek_token sample_env ((?at 4 False)\<lparr>state := ?s\<rparr>)
           = Inr (Some ?t5, (?at 4 True)\<lparr>state := ?s\<rparr>)
      \<and> ini_token_t.typ ?t5 = ini_SECTION_END_TOKEN
      \<and> skip_token ((?at 4 True)\<lparr>state := ?s\<rparr>) = Inr ((?at 5 False)\<lparr>state := ?s\<rparr>)"
    by (simp add: peek_token_def skip_token_def tokens_at_head_def sample_defs)
  from section_header_value [OF common, of ?t4 "?at 3 True" "?at 4 False" ?t5
      "(?at 4 True)\<lparr>state := ?s\<rparr>" "(?at 5 False)\<lparr>state := ?s\<rparr>" ini_event_zero] inherit
  have first: "ini_parser_parse sample_env ?p ini_event_zero =
      Inr (True,
           \<lparr>typ = ini_SECTION_ENTRY_EVENT, start_mark = mark_at 0, end_mark = mark_at 13,
            value = ''child:parent'', tag = ''!!inherit'', implicit = False,
            style = ini_PLAIN_SCALAR_STYLE\<rparr>,
           (?at 5 False)\<lparr>state := ?s\<rparr>)"
    by (simp add: sample_defs)
  let ?u1 = "token_of ini_SECTION_START_TOKEN 0 1 ''[''"
  let ?u2 = "token_of ini_SCALAR_TOKEN 1 2 ''s''"
  let ?u3 = "token_of ini_SECTION_END_TOKEN 2 3 '']''"
  let ?r = "parser_over ini_PARSE_SECTION_ENTRY_STATE [ini_PARSE_DOCUMENT_END_STATE]
      [?u1, ?u2, ?u3]"
  let ?rat = "\<lambda>h a. ?r\<lparr>tokens_head := h, tokens_parsed := of_nat h, token_available := a\<rparr>"
  have plain: "\<not> document_end_produced ?r" "error ?r = ini_NO_ERROR"
    "state ?r = ini_PARSE_SECTION_FIRST_ENTRY_STATE
       \<or> state ?r = ini_PARSE_SECTION_ENTRY_STATE"
    "peek_token sample_env ?r = Inr (Some ?u1, ?rat 0 True)"
    "ini_token_t.typ ?u1 = ini_SECTION_START_TOKEN"
    "skip_token (?rat 0 True) = Inr (?rat 1 False)"
    "peek_token sample_env (?rat 1 False) = Inr (Some ?u2, ?rat 1 True)"
    "ini_token_t.typ ?u2 = ini_SCALAR_TOKEN"
    "skip_token (?rat 1 True) = Inr (?rat 2 False)"
    "peek_token sample_env (?rat 2 False) = Inr (Some ?u3, ?rat 2 True)"
    "skip_token (?rat 2 True) = Inr (?rat 3 False)"
    by (simp_all add: peek_token_def skip_token_def tokens_at_head_def sample_defs)
  from section_header_value [OF plain, THEN conjunct2, of ini_event_zero]
  have second: "ini_parser_parse sample_env ?r ini_event_zero =
      Inr (True,
           \<lparr>typ = ini_SECTION_ENTRY_EVENT, start_mark = mark_at 0, end_mark = mark_at 3,
            value = ''s'', tag = ''!!section'', implicit = False,
            style = ini_PLAIN_SCALAR_STYLE\<rparr>,
           (?rat 3 False)\<lparr>state := ?s\<rparr>)"
    by (simp add: sample_defs)
  from first second show ?thesis
    by (simp add: parser_over_def)
qed

text \<open>
  What a consumer does with the value of an inheriting section: when the marker is one
  byte that does not occur in the child name, cutting the value at the first marker byte
  gives the child and the parent back.
\<close>

lemma section_inherit_value_split:
  assumes "c \<notin> set child"
  shows "takeWhile (\<lambda>b. b \<noteq> c) (append_bytes (append_bytes child [c]) parent) = child
         \<and> tl (dropWhile (\<lambda>b. b \<noteq> c) (append_bytes (append_bytes child [c]) parent)) = parent"
proof -
  have "takeWhile (\<lambda>b. b \<noteq> c) (child @ c # parent) = child"
    using assms by (induction child) auto
  moreover have "dropWhile (\<lambda>b. b \<noteq> c) (child @ c # parent) = c # parent"
    using assms by (induction child) auto
  ultimately show ?thesis
    by (simp add: append_bytes_eq)
qed

section \<open>A section-end token in the Section-Entry state\<close>

text \<open>
  C6, as the code has it: in the Section-Entry state, when the lookahead is a section-end
  token the call consumes it and the token after it. If that token is not a section-key
  token, the call records the Parser error "did not find expected <section-key>" at that
  token's start mark and fails. If it is, and a scalar token follows, the call consumes
  the scalar too and emits a Scalar event that runs from the key token's start mark to
  the scalar's end mark, whose value is the scalar token's bytes and whose tag is the
  classifier's tag of that value; it moves to the Section-Value state.
\<close>

theorem section_entry_section_end_key:
  assumes "\<not> document_end_produced p" and "error p = ini_NO_ERROR"
    and "state p = ini_PARSE_SECTION_ENTRY_STATE"
    and "peek_token env p = Inr (Some closing, p1)"
    and "ini_token_t.typ closing = ini_SECTION_END_TOKEN"
    and "skip_token p1 = Inr p2"
    and "peek_token env p2 = Inr (Some key, p3)"
    and "skip_token p3 = Inr p4"
  shows "(ini_token_t.typ key \<noteq> ini_SECTION_KEY_TOKEN
          \<longrightarrow> ini_parser_parse env p ev =
                Inr (False, ini_event_zero,
                     p4\<lparr>error := ini_PARSER_ERROR,
                        problem := ''did not find expected <section-key>'',
                        problem_mark := ini_token_t.start_mark key\<rparr>))
       \<and> (ini_token_t.typ key = ini_SECTION_KEY_TOKEN
          \<and> peek_token env p4 = Inr (Some scalar, p5)
          \<and> ini_token_t.typ scalar = ini_SCALAR_TOKEN
          \<and> skip_token p5 = Inr p6
          \<longrightarrow> ini_parser_parse env p ev =
                Inr (True,
                     \<lparr>typ = ini_SCALAR_EVENT,
                      start_mark = ini_token_t.start_mark key,
                      end_mark = ini_token_t.end_mark scalar,
                      value = ini_token_t.value scalar,
                      tag = analyzeTag env (ini_token_t.value scalar),
                      implicit = False, style = 0\<rparr>,
                     p6\<lparr>state := ini_PARSE_SECTION_VALUE_STATE\<rparr>))"
proof -
  have "ini_parser_parse env p ev = section_entry_section_end env p1 ini_event_zero"
    using parse_section_entry [of p env ev] assms(1-5)
    by (simp add: ini_parser_parse_section_entry_def)
  then show ?thesis
    using assms(6-8)
    by (simp add: section_entry_section_end_def fail_with_def ini_parser_set_parser_error_def)
qed

text \<open>A section-end token followed by the document-end token, and one followed by a key.\<close>

theorem section_entry_section_end_key_witness:
  "ini_parser_parse sample_env
     (parser_over ini_PARSE_SECTION_ENTRY_STATE [ini_PARSE_DOCUMENT_END_STATE]
        [token_of ini_SECTION_END_TOKEN 0 1 '']'', token_of ini_DOCUMENT_END_TOKEN 1 1 []])
     ini_event_zero
   = Inr (False, ini_event_zero,
          (parser_over ini_PARSE_SECTION_ENTRY_STATE [ini_PARSE_DOCUMENT_END_STATE]
             [token_of ini_SECTION_END_TOKEN 0 1 '']'', token_of ini_DOCUMENT_END_TOKEN 1 1 []])
            \<lparr>tokens_head := 2, tokens_parsed := 2, document_end_produced := True,
              error := ini_PARSER_ERROR,
              problem := ''did not find expected <section-key>'',
              problem_mark := mark_at 1\<rparr>)
   \<and> ini_parser_parse sample_env
       (parser_over ini_PARSE_SECTION_ENTRY_STATE [ini_PARSE_DOCUMENT_END_STATE]
          [token_of ini_SECTION_END_TOKEN 0 1 '']'', token_of ini_SECTION_KEY_TOKEN 1 1 [],
           token_of ini_SCALAR_TOKEN 1 5 ''name''])
       ini_event_zero
     = Inr (True,
            \<lparr>typ = ini_SCALAR_EVENT, start_mark = mark_at 1, end_mark = mark_at 5,
             value = ''name'', tag = ''!!str'', implicit = False, style = 0\<rparr>,
            (parser_over ini_PARSE_SECTION_VALUE_STATE [ini_PARSE_DOCUMENT_END_STATE]
               [token_of ini_SECTION_END_TOKEN 0 1 '']'', token_of ini_SECTION_KEY_TOKEN 1 1 [],
                token_of ini_SCALAR_TOKEN 1 5 ''name''])
              \<lparr>tokens_head := 3, tokens_parsed := 3\<rparr>)"
proof -
  let ?t1 = "token_of ini_SECTION_END_TOKEN 0 1 '']''"
  let ?t2 = "token_of ini_DOCUMENT_END_TOKEN 1 1 []"
  let ?p = "parser_over ini_PARSE_SECTION_ENTRY_STATE [ini_PARSE_DOCUMENT_END_STATE] [?t1, ?t2]"
  let ?at = "\<lambda>h a. ?p\<lparr>tokens_head := h, tokens_parsed := of_nat h, token_available := a\<rparr>"
  have missing: "\<not> document_end_produced ?p" "error ?p = ini_NO_ERROR"
    "state ?p = ini_PARSE_SECTION_ENTRY_STATE"
    "peek_token sample_env ?p = Inr (Some ?t1, ?at 0 True)"
    "ini_token_t.typ ?t1 = ini_SECTION_END_TOKEN"
    "skip_token (?at 0 True) = Inr (?at 1 False)"
    "peek_token sample_env (?at 1 False) = Inr (Some ?t2, ?at 1 True)"
    "skip_token (?at 1 True) = Inr ((?at 2 False)\<lparr>document_end_produced := True\<rparr>)"
    by (simp_all add: peek_token_def skip_token_def tokens_at_head_def sample_defs)
  from section_entry_section_end_key [OF missing, THEN conjunct1, of ini_event_zero]
  have first: "ini_parser_parse sample_env ?p ini_event_zero =
      Inr (False, ini_event_zero,
           (?at 2 False)\<lparr>document_end_produced := True, error := ini_PARSER_ERROR,
              problem := ''did not find expected <section-key>'',
              problem_mark := mark_at 1\<rparr>)"
    by (simp add: sample_defs)
  let ?u2 = "token_of ini_SECTION_KEY_TOKEN 1 1 []"
  let ?u3 = "token_of ini_SCALAR_TOKEN 1 5 ''name''"
  let ?r = "parser_over ini_PARSE_SECTION_ENTRY_STATE [ini_PARSE_DOCUMENT_END_STATE]
      [?t1, ?u2, ?u3]"
  let ?rat = "\<lambda>h a. ?r\<lparr>tokens_head := h, tokens_parsed := of_nat h, token_available := a\<rparr>"
  have found: "\<not> document_end_produced ?r" "error ?r = ini_NO_ERROR"
    "state ?r = ini_PARSE_SECTION_ENTRY_STATE"
    "peek_token sample_env ?r = Inr (Some ?t1, ?rat 0 True)"
    "ini_token_t.typ ?t1 = ini_SECTION_END_TOKEN"
    "skip_token (?rat 0 True) = Inr (?rat 1 False)"
    "peek_token sample_env (?rat 1 False) = Inr (Some ?u2, ?rat 1 True)"
    "skip_token (?rat 1 True) = Inr (?rat 2 False)"
    by (simp_all add: peek_token_def skip_token_def tokens_at_head_def sample_defs)
  have scalar: "ini_token_t.typ ?u2 = ini_SECTION_KEY_TOKEN
      \<and> peek_token sample_env (?rat 2 False) = Inr (Some ?u3, ?rat 2 True)
      \<and> ini_token_t.typ ?u3 = ini_SCALAR_TOKEN
      \<and> skip_token (?rat 2 True) = Inr (?rat 3 False)"
    by (simp add: peek_token_def skip_token_def tokens_at_head_def sample_defs)
  from section_entry_section_end_key [OF found, THEN conjunct2,
      of ?u3 "?rat 2 True" "?rat 3 False" ini_event_zero] scalar
  have second: "ini_parser_parse sample_env ?r ini_event_zero =
      Inr (True,
           \<lparr>typ = ini_SCALAR_EVENT, start_mark = mark_at 1, end_mark = mark_at 5,
            value = ''name'', tag = ''!!str'', implicit = False, style = 0\<rparr>,
           (?rat 3 False)\<lparr>state := ini_PARSE_SECTION_VALUE_STATE\<rparr>)"
    by (simp add: sample_defs)
  from first second show ?thesis
    by (simp add: parser_over_def)
qed

text \<open>
  The claim as stated fails: the event's value is not the section-key token's bytes (here
  that token carries none) but those of the token after it, \<open>''name''\<close>, which is consumed
  as well: three tokens are gone, not two.
\<close>

theorem section_entry_section_end_value_not_key_bytes:
  "ini_parser_parse sample_env
     (parser_over ini_PARSE_SECTION_ENTRY_STATE [ini_PARSE_DOCUMENT_END_STATE]
        [token_of ini_SECTION_END_TOKEN 0 1 '']'', token_of ini_SECTION_KEY_TOKEN 1 1 [],
         token_of ini_SCALAR_TOKEN 1 5 ''name'', token_of ini_SECTION_VALUE_TOKEN 5 6 ''=''])
     ini_event_zero
   = Inr (True,
          \<lparr>typ = ini_SCALAR_EVENT, start_mark = mark_at 1, end_mark = mark_at 5,
           value = ''name'', tag = ''!!str'', implicit = False, style = 0\<rparr>,
          (parser_over ini_PARSE_SECTION_VALUE_STATE [ini_PARSE_DOCUMENT_END_STATE]
             [token_of ini_SECTION_END_TOKEN 0 1 '']'', token_of ini_SECTION_KEY_TOKEN 1 1 [],
              token_of ini_SCALAR_TOKEN 1 5 ''name'', token_of ini_SECTION_VALUE_TOKEN 5 6 ''=''])
            \<lparr>tokens_head := 3, tokens_parsed := 3\<rparr>)
   \<and> ''name'' \<noteq> ini_token_t.value (token_of ini_SECTION_KEY_TOKEN 1 1 [])"
  by (simp add: step_defs sample_defs)

section \<open>An unterminated header\<close>

text \<open>
  C8: for the token sequence of an unterminated header, that is a document-start token, a
  section-start token, a scalar token and then a token that is neither an inherit token
  nor a section-end token, the first call emits the Document-Start event and the second
  call, which reaches that token, returns a failure status and records a Parser error
  whose message is "did not find expected <section-end>" and whose mark is the start mark
  of the token found in place of the section-end token.
\<close>

theorem unterminated_header_error:
  assumes "\<not> document_end_produced p" and "error p = ini_NO_ERROR"
    and "state p = ini_PARSE_DOCUMENT_START_STATE"
    and "peek_token env p = Inr (Some t0, p1)"
    and "ini_token_t.typ t0 = ini_DOCUMENT_START_TOKEN"
    and "error p1 = ini_NO_ERROR"
    and "skip_token p1 = Inr p2"
    and "peek_token env (p2\<lparr>states := states p2 @ [ini_PARSE_DOCUMENT_END_STATE],
                            state := ini_PARSE_SECTION_FIRST_ENTRY_STATE\<rparr>)
           = Inr (Some opening, q1)"
    and "ini_token_t.typ opening = ini_SECTION_START_TOKEN"
    and "skip_token q1 = Inr q2"
    and "peek_token env q2 = Inr (Some name, q3)"
    and "ini_token_t.typ name = ini_SCALAR_TOKEN"
    and "skip_token q3 = Inr q4"
    and "peek_token env q4 = Inr (Some tok, q5)"
    and "ini_token_t.typ tok \<noteq> ini_SECTION_INHERIT_TOKEN"
    and "ini_token_t.typ tok \<noteq> ini_SECTION_END_TOKEN"
  shows "ini_parser_parse_calls env 2 p ev =
           Inr ([(True,
                  \<lparr>typ = ini_DOCUMENT_START_EVENT,
                   start_mark = ini_token_t.start_mark t0,
                   end_mark = ini_token_t.end_mark t0,
                   value = [], tag = [], implicit = False, style = 0\<rparr>),
                 (False, ini_event_zero)],
                q5\<lparr>error := ini_PARSER_ERROR,
                   problem := ''did not find expected <section-end>'',
                   problem_mark := ini_token_t.start_mark tok\<rparr>)"
proof -
  let ?q = "p2\<lparr>states := states p2 @ [ini_PARSE_DOCUMENT_END_STATE],
               state := ini_PARSE_SECTION_FIRST_ENTRY_STATE\<rparr>"
  let ?e = "\<lparr>typ = ini_DOCUMENT_START_EVENT,
            start_mark = ini_token_t.start_mark t0,
            end_mark = ini_token_t.end_mark t0,
            value = [], tag = [], implicit = False, style = 0\<rparr>"
  let ?r = "q5\<lparr>error := ini_PARSER_ERROR,
               problem := ''did not find expected <section-end>'',
               problem_mark := ini_token_t.start_mark tok\<rparr>"
  have first: "ini_parser_parse env p ev = Inr (True, ?e, ?q)"
    using assms(1-5,7)
    by (simp add: ini_parser_parse_def ini_parser_state_machine_def
        ini_parser_parse_document_start_def)
  have p2: "p2 = p1\<lparr>token_available := False,
                  tokens_parsed := tokens_parsed p1 + 1,
                  document_end_produced :=
                    (ini_token_t.typ (tokens p1 ! tokens_head p1) = ini_DOCUMENT_END_TOKEN),
                  tokens_head := tokens_head p1 + 1\<rparr>"
    using assms(7) skip_token_Inr [OF peek_token_Some(1) [OF assms(4)]] by simp
  have "\<not> document_end_produced ?q" "error ?q = ini_NO_ERROR"
    using peek_token_Some(2) [OF assms(4)] assms(5,6) by (simp_all add: p2)
  then have "ini_parser_parse env ?q ?e =
      ini_parser_parse_section_entry env ?q ini_event_zero True"
    by (simp add: ini_parser_parse_def ini_parser_state_machine_def)
  also have "\<dots> = section_entry_start env q1 ini_event_zero opening"
    using assms(8,9) by (simp add: ini_parser_parse_section_entry_def)
  also have "\<dots> = Inr (False, ini_event_zero, ?r)"
    using assms(10-16)
    by (simp add: section_entry_start_def section_entry_end_def fail_with_def
        ini_parser_set_parser_error_def)
  finally have second: "ini_parser_parse env ?q ?e = Inr (False, ini_event_zero, ?r)" .
  have two: "2 = Suc (Suc 0)" by simp
  show ?thesis
    unfolding two by (simp add: first second)
qed

text \<open>The input \<^verbatim>\<open>[section\<close>: the document-end token stands where \<^verbatim>\<open>]\<close> is expected.\<close>

theorem unterminated_header_error_witness:
  "ini_parser_parse_calls sample_env 2
     (parser_over ini_PARSE_DOCUMENT_START_STATE []
        [token_of ini_DOCUMENT_START_TOKEN 0 0 [], token_of ini_SECTION_START_TOKEN 0 1 ''['',
         token_of ini_SCALAR_TOKEN 1 8 ''section'', token_of ini_DOCUMENT_END_TOKEN 8 8 []])
     ini_event_zero
   = Inr ([(True,
            \<lparr>typ = ini_DOCUMENT_START_EVENT, start_mark = mark_at 0, end_mark = mark_at 0,
             value = [], tag = [], implicit = False, style = 0\<rparr>),
           (False, ini_event_zero)],
          (parser_over ini_PARSE_SECTION_FIRST_ENTRY_STATE [ini_PARSE_DOCUMENT_END_STATE]
             [token_of ini_DOCUMENT_START_TOKEN 0 0 [],
              token_of ini_SECTION_START_TOKEN 0 1 ''['',
              token_of ini_SCALAR_TOKEN 1 8 ''section'',
              token_of ini_DOCUMENT_END_TOKEN 8 8 []])
            \<lparr>tokens_head := 3, tokens_parsed := 3, token_available := True,
              error := ini_PARSER_ERROR,
              problem := ''did not find expected <section-end>'',
              problem_mark := mark_at 8\<rparr>)"
proof -
  let ?t0 = "token_of ini_DOCUMENT_START_TOKEN 0 0 []"
  let ?t1 = "token_of ini_SECTION_START_TOKEN 0 1 ''[''"
  let ?t2 = "token_of ini_SCALAR_TOKEN 1 8 ''section''"
  let ?t3 = "token_of ini_DOCUMENT_END_TOKEN 8 8 []"
  let ?p = "parser_over ini_PARSE_DOCUMENT_START_STATE [] [?t0, ?t1, ?t2, ?t3]"
  let ?at = "\<lambda>h a. ?p\<lparr>tokens_head := h, tokens_parsed := of_nat h, token_available := a\<rparr>"
  let ?in = "\<lambda>r. r\<lparr>states := [ini_PARSE_DOCUMENT_END_STATE],
                      state := ini_PARSE_SECTION_FIRST_ENTRY_STATE\<rparr>"
  have hyps: "\<not> document_end_produced ?p" "error ?p = ini_NO_ERROR"
    "state ?p = ini_PARSE_DOCUMENT_START_STATE"
    "peek_token sample_env ?p = Inr (Some ?t0, ?at 0 True)"
    "ini_token_t.typ ?t0 = ini_DOCUMENT_START_TOKEN"
    "error (?at 0 True) = ini_NO_ERROR"
    "skip_token (?at 0 True) = Inr (?at 1 False)"
    "peek_token sample_env
       ((?at 1 False)\<lparr>states := states (?at 1 False) @ [ini_PARSE_DOCUMENT_END_STATE],
                      state := ini_PARSE_SECTION_FIRST_ENTRY_STATE\<rparr>)
       = Inr (Some ?t1, ?in (?at 1 True))"
    "ini_token_t.typ ?t1 = ini_SECTION_START_TOKEN"
    "skip_token (?in (?at 1 True)) = Inr (?in (?at 2 False))"
    "peek_token sample_env (?in (?at 2 False)) = Inr (Some ?t2, ?in (?at 2 True))"
    "ini_token_t.typ ?t2 = ini_SCALAR_TOKEN"
    "skip_token (?in (?at 2 True)) = Inr (?in (?at 3 False))"
    "peek_token sample_env (?in (?at 3 False)) = Inr (Some ?t3, ?in (?at 3 True))"
    "ini_token_t.typ ?t3 \<noteq> ini_SECTION_INHERIT_TOKEN"
    "ini_token_t.typ ?t3 \<noteq> ini_SECTION_END_TOKEN"
    by (simp_all add: peek_token_def skip_token_def tokens_at_head_def sample_defs)
  from unterminated_header_error [OF hyps, of ini_event_zero]
  show ?thesis
    by (simp add: sample_defs)
qed

section \<open>What a transition returns\<close>

text \<open>
  The tokenizer's side of the contract, as the spec has it: it yields no token only when
  it has failed and recorded its error. Under it, every transition function that returns
  a failure status leaves an error in the parser and the event untouched, and a success
  status comes with an event of the kinds listed.
\<close>

lemma peek_token_None_error:
  assumes "\<forall>q q'. ini_parser_fetch_more_tokens env q = (False, q') \<longrightarrow> error q' \<noteq> ini_NO_ERROR"
    and "peek_token env p = Inr (None, p1)"
  shows "error p1 \<noteq> ini_NO_ERROR"
  using assms(1) peek_token_None(2) [OF assms(2)] by blast

lemma peek_token_states:
  assumes "\<forall>q b q'. ini_parser_fetch_more_tokens env q = (b, q') \<longrightarrow> states q' = states q"
    and "peek_token env p = Inr (r, p1)"
  shows "states p1 = states p"
  using assms
  by (auto simp: peek_token_def split: if_splits prod.splits sum.splits)

lemma fail_with_result:
  assumes "fail_with p ev msg m = Inr (ok, ev', p')"
  shows "\<not> ok \<and> ev' = ev \<and> error p' = ini_PARSER_ERROR"
  using assms by (auto simp: fail_with_def ini_parser_set_parser_error_def)

lemma document_start_result:
  assumes "\<forall>q q'. ini_parser_fetch_more_tokens env q = (False, q') \<longrightarrow> error q' \<noteq> ini_NO_ERROR"
    and "ini_parser_parse_document_start env p ev = Inr (ok, ev', p')"
  shows "if ok then ini_event_t.typ ev' = ini_DOCUMENT_START_EVENT
         else ev' = ev \<and> error p' \<noteq> ini_NO_ERROR"
  using assms(2) peek_token_None_error [OF assms(1)]
  by (auto simp: ini_parser_parse_document_start_def
      dest!: fail_with_result
      split: sum.splits option.splits prod.splits if_splits)

lemma section_entry_end_result:
  assumes "section_entry_end p ev tok inh sm em name t1 t2 = Inr (ok, ev', p')"
  shows "if ok then ini_event_t.typ ev' = ini_SECTION_ENTRY_EVENT
         else ev' = ev \<and> error p' \<noteq> ini_NO_ERROR"
  using assms
  by (auto simp: section_entry_end_def
      dest!: fail_with_result
      split: sum.splits option.splits prod.splits if_splits)

lemma section_entry_start_result:
  assumes "\<forall>q q'. ini_parser_fetch_more_tokens env q = (False, q') \<longrightarrow> error q' \<noteq> ini_NO_ERROR"
    and "section_entry_start env p ev tok = Inr (ok, ev', p')"
  shows "if ok then ini_event_t.typ ev' = ini_SECTION_ENTRY_EVENT
         else ev' = ev \<and> error p' \<noteq> ini_NO_ERROR"
  using assms(2) peek_token_None_error [OF assms(1)]
  by (auto simp: section_entry_start_def Let_def
      dest!: fail_with_result section_entry_end_result
      split: sum.splits option.splits prod.splits if_splits)

lemma section_entry_section_end_result:
  assumes "\<forall>q q'. ini_parser_fetch_more_tokens env q = (False, q') \<longrightarrow> error q' \<noteq> ini_NO_ERROR"
    and "section_entry_section_end env p ev = Inr (ok, ev', p')"
  shows "if ok then ini_event_t.typ ev' = ini_SCALAR_EVENT
         else ev' = ev \<and> error p' \<noteq> ini_NO_ERROR"
  using assms(2) peek_token_None_error [OF assms(1)]
  by (auto simp: section_entry_section_end_def Let_def
      dest!: fail_with_result
      split: sum.splits option.splits prod.splits if_splits)

lemma section_key_result:
  assumes "\<forall>q q'. ini_parser_fetch_more_tokens env q = (False, q') \<longrightarrow> error q' \<noteq> ini_NO_ERROR"
    and "ini_parser_parse_section_key env p ev first = Inr (ok, ev', p')"
  shows "if ok then ini_event_t.typ ev' = ini_SCALAR_EVENT
                  \<or> ini_event_t.typ ev' = ini_SECTION_ENTRY_EVENT
         else ev' = ev \<and> error p' \<noteq> ini_NO_ERROR"
  using assms(2) peek_token_None_error [OF assms(1)]
  by (auto simp: ini_parser_parse_section_key_def Let_def
      dest!: fail_with_result
      split: sum.splits option.splits prod.splits if_splits)

lemma section_value_result:
  assumes "\<forall>q q'. ini_parser_fetch_more_tokens env q = (False, q') \<longrightarrow> error q' \<noteq> ini_NO_ERROR"
    and "ini_parser_parse_section_value env p ev = Inr (ok, ev', p')"
  shows "if ok then ini_event_t.typ ev' = ini_SCALAR_EVENT
         else ev' = ev \<and> error p' \<noteq> ini_NO_ERROR"
  using assms(2) peek_token_None_error [OF assms(1)]
  by (auto simp: ini_parser_parse_section_value_def ini_parser_process_empty_scalar_def Let_def
      dest!: fail_with_result
      split: sum.splits option.splits prod.splits if_splits)

text \<open>The Document-End event comes from one place: the pop of the return point.\<close>

lemma section_entry_result:
  assumes "\<forall>q q'. ini_parser_fetch_more_tokens env q = (False, q') \<longrightarrow> error q' \<noteq> ini_NO_ERROR"
    and "ini_parser_parse_section_entry env p ev first = Inr (ok, ev', p')"
  shows "if ok
         then ini_event_t.typ ev' = ini_SECTION_ENTRY_EVENT
              \<or> ini_event_t.typ ev' = ini_SCALAR_EVENT
              \<or> (\<exists>tok p1. peek_token env p = Inr (Some tok, p1) \<and> states p1 \<noteq> []
                    \<and> state p' = last (states p1))
         else ev' = ev \<and> error p' \<noteq> ini_NO_ERROR"
  using assms(2) peek_token_None_error [OF assms(1)]
    section_entry_start_result [OF assms(1)] section_entry_section_end_result [OF assms(1)]
  by (auto simp: ini_parser_parse_section_entry_def
      dest!: fail_with_result
      split: sum.splits option.splits prod.splits if_splits)

lemma state_machine_result:
  assumes "\<forall>q q'. ini_parser_fetch_more_tokens env q = (False, q') \<longrightarrow> error q' \<noteq> ini_NO_ERROR"
    and "ini_parser_state_machine env p ev = Inr (ok, ev', p')"
    and "ini_event_t.typ ev \<noteq> ini_DOCUMENT_END_EVENT"
  shows "if ok
         then ini_event_t.typ ev' = ini_DOCUMENT_END_EVENT \<longrightarrow>
                (\<exists>tok p1. peek_token env p = Inr (Some tok, p1) \<and> states p1 \<noteq> []
                    \<and> state p' = last (states p1))
         else ev' = ev \<and> error p' \<noteq> ini_NO_ERROR"
proof (cases "state p")
  case ini_PARSE_DOCUMENT_START_STATE
  then show ?thesis
    using assms(2) document_start_result [OF assms(1), of p ev ok ev' p']
    by (auto simp: ini_parser_state_machine_def split: if_splits)
next
  case ini_PARSE_SECTION_FIRST_ENTRY_STATE
  then show ?thesis
    using assms(2) section_entry_result [OF assms(1), of p ev True ok ev' p']
    by (auto simp: ini_parser_state_machine_def split: if_splits)
next
  case ini_PARSE_SECTION_ENTRY_STATE
  then show ?thesis
    using assms(2) section_entry_result [OF assms(1), of p ev False ok ev' p']
    by (auto simp: ini_parser_state_machine_def split: if_splits)
next
  case ini_PARSE_SECTION_FIRST_KEY_STATE
  then show ?thesis
    using assms(2) section_key_result [OF assms(1), of p ev True ok ev' p']
    by (auto simp: ini_parser_state_machine_def split: if_splits)
next
  case ini_PARSE_SECTION_KEY_STATE
  then show ?thesis
    using assms(2) section_key_result [OF assms(1), of p ev False ok ev' p']
    by (auto simp: ini_parser_state_machine_def split: if_splits)
next
  case ini_PARSE_SECTION_VALUE_STATE
  then show ?thesis
    using assms(2) section_value_result [OF assms(1), of p ev ok ev' p']
    by (auto simp: ini_parser_state_machine_def split: if_splits)
qed (use assms(2) in \<open>simp_all add: ini_parser_state_machine_def\<close>)

text \<open>
  The state stack holds nothing but what \<^verbatim>\<open>ini_parser_parse_document_start\<close> pushes: a
  call adds at most the Document-End return point to it.
\<close>

lemma skip_token_states:
  assumes "skip_token p = Inr p'"
  shows "states p' = states p"
  using assms by (auto simp: skip_token_def split: sum.splits)

lemma fail_with_states:
  assumes "fail_with p ev msg m = Inr (ok, ev', p')"
  shows "states p' = states p"
  using assms by (auto simp: fail_with_def ini_parser_set_parser_error_def)

lemma state_machine_states:
  assumes "\<forall>q b q'. ini_parser_fetch_more_tokens env q = (b, q') \<longrightarrow> states q' = states q"
    and "ini_parser_state_machine env p ev = Inr (ok, ev', p')"
  shows "set (states p') \<subseteq> insert ini_PARSE_DOCUMENT_END_STATE (set (states p))"
  using assms(2) peek_token_states [OF assms(1)]
  by (cases "state p")
     (auto simp: ini_parser_state_machine_def ini_parser_parse_document_start_def
        ini_parser_parse_section_entry_def section_entry_start_def section_entry_end_def
        section_entry_section_end_def ini_parser_parse_section_key_def
        ini_parser_parse_section_value_def ini_parser_process_empty_scalar_def Let_def
      dest!: fail_with_states skip_token_states dest: in_set_butlastD
      split: sum.splits option.splits prod.splits if_splits)

lemma parse_keeps_return_points:
  assumes "\<forall>q b q'. ini_parser_fetch_more_tokens env q = (b, q') \<longrightarrow> states q' = states q"
    and "set (states p) \<subseteq> {ini_PARSE_DOCUMENT_END_STATE}"
    and "ini_parser_parse env p ev = Inr (ok, ev', p')"
  shows "set (states p') \<subseteq> {ini_PARSE_DOCUMENT_END_STATE}"
proof (cases "document_end_produced p \<or> error p \<noteq> ini_NO_ERROR
                \<or> state p = ini_PARSE_DOCUMENT_END_STATE")
  case True
  with assms(2,3) show ?thesis by (simp add: parse_latched)
next
  case False
  with assms(3) have "ini_parser_state_machine env p ini_event_zero = Inr (ok, ev', p')"
    by (simp add: ini_parser_parse_def)
  from state_machine_states [OF assms(1) this] assms(2) show ?thesis by auto
qed

section \<open>The latch of the driver\<close>

text \<open>
  C1: take a call of \<^verbatim>\<open>ini_parser_parse\<close> that returns, on a parser whose state stack holds
  nothing but the Document-End return point (the one state the parser ever pushes), with
  a tokenizer that records an error whenever it yields no token and that leaves the state
  stack alone. If that call produced the Document-End event, or left an error recorded,
  or left the parser in the Document-End state (or with \<open>document_end_produced\<close> set), or
  returned a failure status, then every later call, any number of them, returns a success
  status with the erased event and changes nothing in the parser: no error is reported
  again. And a call that returns a failure status is a call that found no error recorded
  and leaves one recorded: the call that first detects it.
\<close>

theorem parse_latch_after_end_or_error:
  assumes recorded:
      "\<forall>q q'. ini_parser_fetch_more_tokens env q = (False, q') \<longrightarrow> error q' \<noteq> ini_NO_ERROR"
    and frame:
      "\<forall>q b q'. ini_parser_fetch_more_tokens env q = (b, q') \<longrightarrow> states q' = states q"
    and stack: "set (states p) \<subseteq> {ini_PARSE_DOCUMENT_END_STATE}"
    and call: "ini_parser_parse env p ev0 = Inr (ok, ev, p')"
    and trigger:
      "ini_event_t.typ ev = ini_DOCUMENT_END_EVENT \<or> error p' \<noteq> ini_NO_ERROR
         \<or> state p' = ini_PARSE_DOCUMENT_END_STATE \<or> document_end_produced p' \<or> \<not> ok"
  shows "ini_parser_parse_calls env n p' ev = Inr (replicate n (True, ini_event_zero), p')
         \<and> (\<not> ok \<longrightarrow> error p = ini_NO_ERROR \<and> error p' \<noteq> ini_NO_ERROR)"
proof (cases "document_end_produced p \<or> error p \<noteq> ini_NO_ERROR
                \<or> state p = ini_PARSE_DOCUMENT_END_STATE")
  case True
  from parse_latched [OF True, of env ev0] call
  have same: "ok" "ev = ini_event_zero" "p' = p" by simp_all
  with trigger have "document_end_produced p \<or> error p \<noteq> ini_NO_ERROR
      \<or> state p = ini_PARSE_DOCUMENT_END_STATE"
    by (auto simp: ini_event_zero_def)
  from parse_calls_latched [OF this] same show ?thesis by simp
next
  case False
  then have sm: "ini_parser_state_machine env p ini_event_zero = Inr (ok, ev, p')"
    using call by (simp add: ini_parser_parse_def)
  have zero: "ini_event_t.typ ini_event_zero \<noteq> ini_DOCUMENT_END_EVENT"
    by (simp add: ini_event_zero_def)
  note res = state_machine_result [OF recorded sm zero]
  have failed: "\<not> ok \<Longrightarrow> error p' \<noteq> ini_NO_ERROR"
    using res by (simp split: if_splits)
  have ended: "state p' = ini_PARSE_DOCUMENT_END_STATE"
    if "ok" and "ini_event_t.typ ev = ini_DOCUMENT_END_EVENT"
  proof -
    from res that obtain tok p1
      where p1: "peek_token env p = Inr (Some tok, p1)" "states p1 \<noteq> []"
        "state p' = last (states p1)"
      by auto
    have "states p1 = states p"
      by (rule peek_token_states [OF frame p1(1)])
    with p1(2,3) have "state p' \<in> set (states p)" by simp
    with stack show ?thesis by auto
  qed
  have "document_end_produced p' \<or> error p' \<noteq> ini_NO_ERROR
      \<or> state p' = ini_PARSE_DOCUMENT_END_STATE"
    using trigger failed ended by blast
  from parse_calls_latched [OF this] failed False show ?thesis by simp
qed

text \<open>
  The sample tokenizer keeps the contract. An empty document in the Section-First-Entry
  state: the call that meets the document-end token emits the Document-End event, and the
  three calls after it return the erased event with a success status. A value state
  that meets the document-end token: the call fails with a Parser error, and the three
  calls after it succeed with the erased event.
\<close>

theorem parse_latch_after_end_or_error_witness:
  "ini_parser_parse sample_env
     (parser_over ini_PARSE_SECTION_FIRST_ENTRY_STATE [ini_PARSE_DOCUMENT_END_STATE]
        [token_of ini_DOCUMENT_END_TOKEN 0 0 []])
     ini_event_zero
   = Inr (True,
          \<lparr>typ = ini_DOCUMENT_END_EVENT, start_mark = mark_at 0, end_mark = mark_at 0,
           value = [], tag = [], implicit = False, style = 0\<rparr>,
          (parser_over ini_PARSE_DOCUMENT_END_STATE []
             [token_of ini_DOCUMENT_END_TOKEN 0 0 []])\<lparr>token_available := True\<rparr>)
   \<and> ini_parser_parse_calls sample_env 3
       ((parser_over ini_PARSE_DOCUMENT_END_STATE []
           [token_of ini_DOCUMENT_END_TOKEN 0 0 []])\<lparr>token_available := True\<rparr>)
       \<lparr>typ = ini_DOCUMENT_END_EVENT, start_mark = mark_at 0, end_mark = mark_at 0,
        value = [], tag = [], implicit = False, style = 0\<rparr>
     = Inr ([(True, ini_event_zero), (True, ini_event_zero), (True, ini_event_zero)],
            (parser_over ini_PARSE_DOCUMENT_END_STATE []
               [token_of ini_DOCUMENT_END_TOKEN 0 0 []])\<lparr>token_available := True\<rparr>)
   \<and> ini_parser_parse sample_env
       (parser_over ini_PARSE_SECTION_VALUE_STATE [ini_PARSE_DOCUMENT_END_STATE]
          [token_of ini_DOCUMENT_END_TOKEN 1 1 []])
       ini_event_zero
     = Inr (False, ini_event_zero,
            (parser_over ini_PARSE_SECTION_VALUE_STATE [ini_PARSE_DOCUMENT_END_STATE]
               [token_of ini_DOCUMENT_END_TOKEN 1 1 []])
              \<lparr>token_available := True, error := ini_PARSER_ERROR,
                problem := ''did not find expected <section-value>'',
                problem_mark := mark_at 1\<rparr>)
   \<and> ini_parser_parse_calls sample_env 3
       ((parser_over ini_PARSE_SECTION_VALUE_STATE [ini_PARSE_DOCUMENT_END_STATE]
           [token_of ini_DOCUMENT_END_TOKEN 1 1 []])
          \<lparr>token_available := True, error := ini_PARSER_ERROR,
            problem := ''did not find expected <section-value>'',
            problem_mark := mark_at 1\<rparr>)
       ini_event_zero
     = Inr ([(True, ini_event_zero), (True, ini_event_zero), (True, ini_event_zero)],
            (parser_over ini_PARSE_SECTION_VALUE_STATE [ini_PARSE_DOCUMENT_END_STATE]
               [token_of ini_DOCUMENT_END_TOKEN 1 1 []])
              \<lparr>token_available := True, error := ini_PARSER_ERROR,
                problem := ''did not find expected <section-value>'',
                problem_mark := mark_at 1\<rparr>)"
proof -
  have recorded: "\<forall>q q'. ini_parser_fetch_more_tokens sample_env q = (False, q')
      \<longrightarrow> error q' \<noteq> ini_NO_ERROR"
    by (auto simp: sample_env_def fetch_queued_def split: if_splits)
  have frame: "\<forall>q b q'. ini_parser_fetch_more_tokens sample_env q = (b, q')
      \<longrightarrow> states q' = states q"
    by (auto simp: sample_env_def fetch_queued_def split: if_splits)
  let ?e = "\<lparr>typ = ini_DOCUMENT_END_EVENT, start_mark = mark_at 0, end_mark = mark_at 0,
      value = [], tag = [], implicit = False, style = 0\<rparr>"
  let ?p = "parser_over ini_PARSE_SECTION_FIRST_ENTRY_STATE [ini_PARSE_DOCUMENT_END_STATE]
      [token_of ini_DOCUMENT_END_TOKEN 0 0 []]"
  let ?p' = "(parser_over ini_PARSE_DOCUMENT_END_STATE []
      [token_of ini_DOCUMENT_END_TOKEN 0 0 []])\<lparr>token_available := True\<rparr>"
  have ended: "ini_parser_parse sample_env ?p ini_event_zero = Inr (True, ?e, ?p')"
    by (simp add: step_defs sample_defs)
  have "set (states ?p) \<subseteq> {ini_PARSE_DOCUMENT_END_STATE}"
    "ini_event_t.typ ?e = ini_DOCUMENT_END_EVENT \<or> error ?p' \<noteq> ini_NO_ERROR
       \<or> state ?p' = ini_PARSE_DOCUMENT_END_STATE \<or> document_end_produced ?p' \<or> \<not> True"
    by (simp_all add: parser_over_def)
  from parse_latch_after_end_or_error [OF recorded frame this(1) ended this(2), of 3]
  have after_end: "ini_parser_parse_calls sample_env 3 ?p' ?e =
      Inr ([(True, ini_event_zero), (True, ini_event_zero), (True, ini_event_zero)], ?p')"
    by (simp add: numeral_3_eq_3)
  let ?r = "parser_over ini_PARSE_SECTION_VALUE_STATE [ini_PARSE_DOCUMENT_END_STATE]
      [token_of ini_DOCUMENT_END_TOKEN 1 1 []]"
  let ?r' = "?r\<lparr>token_available := True, error := ini_PARSER_ERROR,
      problem := ''did not find expected <section-value>'', problem_mark := mark_at 1\<rparr>"
  have failed: "ini_parser_parse sample_env ?r ini_event_zero = Inr (False, ini_event_zero, ?r')"
    by (simp add: step_defs sample_defs)
  have "set (states ?r) \<subseteq> {ini_PARSE_DOCUMENT_END_STATE}"
    "ini_event_t.typ ini_event_zero = ini_DOCUMENT_END_EVENT \<or> error ?r' \<noteq> ini_NO_ERROR
       \<or> state ?r' = ini_PARSE_DOCUMENT_END_STATE \<or> document_end_produced ?r' \<or> \<not> False"
    by (simp_all add: parser_over_def)
  from parse_latch_after_end_or_error [OF recorded frame this(1) failed this(2), of 3]
  have after_error: "ini_parser_parse_calls sample_env 3 ?r' ini_event_zero =
      Inr ([(True, ini_event_zero), (True, ini_event_zero), (True, ini_event_zero)], ?r')"
    by (simp add: numeral_3_eq_3)
  from ended after_end failed after_error show ?thesis
    by simp
qed

section \<open>The flag \<open>document_end_produced\<close>\<close>

text \<open>
  A tokenizer that leaves the flag alone leaves it alone in every peek; a consume sets it
  to whether the token just peeked is the document-end token.
\<close>

lemma peek_token_flag:
  assumes "\<forall>q b q'. ini_parser_fetch_more_tokens env q = (b, q')
             \<longrightarrow> document_end_produced q' = document_end_produced q"
    and "peek_token env p = Inr (r, p1)"
  shows "document_end_produced p1 = document_end_produced p"
  using assms
  by (auto simp: peek_token_def split: if_splits prod.splits sum.splits)

lemma peek_token_m_eq:
  assumes "\<forall>q b q'. ini_parser_fetch_more_tokens env q = (b, q')
             \<longrightarrow> document_end_produced q' = document_end_produced q"
  shows "peek_token_m env p = lift_panic (peek_token env p)"
  using peek_token_flag [OF assms, of p]
  by (auto simp: peek_token_m_def resets_flag_def split: sum.splits)

lemma skip_token_m_eq:
  assumes "\<not> document_end_produced p"
  shows "skip_token_m p = lift_panic (skip_token p)"
  using assms
  by (auto simp: skip_token_m_def resets_flag_def split: sum.splits)

lemma skip_token_flag:
  assumes "peek_token env p = Inr (Some tok, p1)" and "skip_token p1 = Inr p2"
  shows "document_end_produced p2 = (ini_token_t.typ tok = ini_DOCUMENT_END_TOKEN)"
  using peek_token_Some(1,2) [OF assms(1)] assms(2)
  by (auto simp: skip_token_def tokens_at_head_def)

lemma section_value_m_eq:
  assumes frame: "\<forall>q b q'. ini_parser_fetch_more_tokens env q = (b, q')
             \<longrightarrow> document_end_produced q' = document_end_produced q"
    and "\<not> document_end_produced p"
  shows "ini_parser_parse_section_value_m env p ev =
           lift_panic (ini_parser_parse_section_value env p ev)"
  using assms(2) peek_token_flag [OF frame]
  by (auto simp: ini_parser_parse_section_value_m_def ini_parser_parse_section_value_def
        peek_token_m_eq [OF frame] skip_token_m_eq fail_with_m_def
        ini_parser_process_empty_scalar_m_def Let_def
      dest: skip_token_flag
      split: sum.splits option.splits prod.splits if_splits)

lemma ini_parser_parse_document_start_m_eq:
  assumes frame: "\<forall>q b q'. ini_parser_fetch_more_tokens env q = (b, q')
             \<longrightarrow> document_end_produced q' = document_end_produced q"
    and "\<not> document_end_produced p"
  shows "ini_parser_parse_document_start_m env p ev = lift_panic (ini_parser_parse_document_start env p ev)"
  using assms(2) peek_token_flag [OF frame]
  by (auto simp: ini_parser_parse_document_start_m_def ini_parser_parse_document_start_def
        peek_token_m_eq [OF frame] skip_token_m_eq fail_with_m_def
        ini_parser_process_empty_scalar_m_def Let_def 
      dest: skip_token_flag
      split: sum.splits option.splits prod.splits if_splits)

lemma ini_parser_parse_section_key_m_eq:
  assumes frame: "\<forall>q b q'. ini_parser_fetch_more_tokens env q = (b, q')
             \<longrightarrow> document_end_produced q' = document_end_produced q"
    and "\<not> document_end_produced p"
  shows "ini_parser_parse_section_key_m env p ev first = lift_panic (ini_parser_parse_section_key env p ev first)"
  using assms(2) peek_token_flag [OF frame]
  by (auto simp: ini_parser_parse_section_key_m_def ini_parser_parse_section_key_def
        peek_token_m_eq [OF frame] skip_token_m_eq fail_with_m_def
        ini_parser_process_empty_scalar_m_def Let_def 
      dest: skip_token_flag
      split: sum.splits option.splits prod.splits if_splits)

lemma section_entry_section_end_m_eq:
  assumes frame: "\<forall>q b q'. ini_parser_fetch_more_tokens env q = (b, q')
             \<longrightarrow> document_end_produced q' = document_end_produced q"
    and "\<not> document_end_produced p"
    and "peek_token env p0 = Inr (Some tok0, p)"
    and "ini_token_t.typ tok0 \<noteq> ini_DOCUMENT_END_TOKEN"
  shows "section_entry_section_end_m env p ev = lift_panic (section_entry_section_end env p ev)"
  using assms(2,4) peek_token_flag [OF frame] skip_token_flag [OF assms(3)]
  by (auto simp: section_entry_section_end_m_def section_entry_section_end_def
        peek_token_m_eq [OF frame] skip_token_m_eq fail_with_m_def Let_def
      dest: skip_token_flag
      split: sum.splits option.splits prod.splits if_splits)

lemma section_entry_end_m_eq:
  assumes "\<not> document_end_produced p"
  shows "section_entry_end_m p ev tok inh sm em name t1 t2 =
           lift_panic (section_entry_end p ev tok inh sm em name t1 t2)"
  using assms
  by (auto simp: section_entry_end_m_def section_entry_end_def skip_token_m_eq fail_with_m_def
      split: sum.splits)

lemma section_entry_start_m_eq:
  assumes frame: "\<forall>q b q'. ini_parser_fetch_more_tokens env q = (b, q')
             \<longrightarrow> document_end_produced q' = document_end_produced q"
    and "\<not> document_end_produced p"
    and "peek_token env p0 = Inr (Some tok0, p)"
    and "ini_token_t.typ tok0 \<noteq> ini_DOCUMENT_END_TOKEN"
  shows "section_entry_start_m env p ev tok = lift_panic (section_entry_start env p ev tok)"
proof -
  note defs = section_entry_start_m_def section_entry_start_def skip_token_m_eq
    peek_token_m_eq [OF frame] fail_with_m_def section_entry_end_m_eq Let_def
  show ?thesis
  proof (cases "skip_token p")
    case (Inl e)
    then show ?thesis
      using assms(2) by (simp add: defs)
  next
    case a: (Inr q1)
    have f1: "\<not> document_end_produced q1"
      using skip_token_flag [OF assms(3) a] assms(4) by simp
    show ?thesis
    proof (cases "peek_token env q1")
      case (Inl e)
      then show ?thesis
        using assms(2) a by (simp add: defs)
    next
      case (Inr r)
      then obtain o2 q2 where b: "peek_token env q1 = Inr (o2, q2)"
        by (cases r) auto
      have f2: "\<not> document_end_produced q2"
        using peek_token_flag [OF frame b] f1 by simp
      show ?thesis
      proof (cases o2)
        case None
        then show ?thesis
          using assms(2) a b by (simp add: defs)
      next
        case (Some t2)
        show ?thesis
        proof (cases "skip_token q2")
          case (Inl e)
          then show ?thesis
            using assms(2) a b Some f2 by (simp add: defs)
        next
          case c: (Inr q3)
          have f3: "document_end_produced q3 = (ini_token_t.typ t2 = ini_DOCUMENT_END_TOKEN)"
            using skip_token_flag [OF b [unfolded Some] c] .
          show ?thesis
          proof (cases "ini_token_t.typ t2 = ini_SCALAR_TOKEN")
            case False
            then show ?thesis
              using assms(2) a b Some f2 c by (simp add: defs)
          next
            case True
            with f3 have f3': "\<not> document_end_produced q3" by simp
            show ?thesis
            proof (cases "peek_token env q3")
              case (Inl e)
              then show ?thesis
                using assms(2) a b Some f2 c True f3' by (simp add: defs)
            next
              case (Inr r')
              then obtain o3 q4 where d: "peek_token env q3 = Inr (o3, q4)"
                by (cases r') auto
              have f4: "\<not> document_end_produced q4"
                using peek_token_flag [OF frame d] f3' by simp
              show ?thesis
              proof (cases o3)
                case None
                then show ?thesis
                  using assms(2) a b Some f2 c True f3' d by (simp add: defs)
              next
                case t3: (Some t3)
                show ?thesis
                proof (cases "ini_token_t.typ t3 = ini_SECTION_INHERIT_TOKEN")
                  case False
                  then show ?thesis
                    using assms(2) a b Some f2 c True f3' d t3 f4 by (simp add: defs)
                next
                  case inherit: True
                  show ?thesis
                  proof (cases "skip_token q4")
                    case (Inl e)
                    then show ?thesis
                      using assms(2) a b Some f2 c True f3' d t3 f4 inherit by (simp add: defs)
                  next
                    case e: (Inr q5)
                    have f5: "\<not> document_end_produced q5"
                      using skip_token_flag [OF d [unfolded t3] e] inherit by simp
                    show ?thesis
                      using assms(2) a b Some f2 c True f3' d t3 f4 inherit e f5
                        peek_token_flag [OF frame]
                      by (auto simp: defs
                          dest: skip_token_flag
                          split: sum.splits option.splits prod.splits if_splits)
                  qed
                qed
              qed
            qed
          qed
        qed
      qed
    qed
  qed
qed

lemma section_entry_m_eq:
  assumes frame: "\<forall>q b q'. ini_parser_fetch_more_tokens env q = (b, q')
             \<longrightarrow> document_end_produced q' = document_end_produced q"
    and "\<not> document_end_produced p"
  shows "ini_parser_parse_section_entry_m env p ev first =
           lift_panic (ini_parser_parse_section_entry env p ev first)"
proof (cases "peek_token env p")
  case (Inl e)
  then show ?thesis
    by (simp add: ini_parser_parse_section_entry_m_def ini_parser_parse_section_entry_def
        peek_token_m_eq [OF frame])
next
  case (Inr r)
  then obtain o1 p1 where a: "peek_token env p = Inr (o1, p1)"
    by (cases r) auto
  have f1: "\<not> document_end_produced p1"
    using peek_token_flag [OF frame a] assms(2) by simp
  show ?thesis
  proof (cases o1)
    case None
    then show ?thesis
      using a
      by (simp add: ini_parser_parse_section_entry_m_def ini_parser_parse_section_entry_def
          peek_token_m_eq [OF frame])
  next
    case (Some tok)
    note a' = a [unfolded Some]
    show ?thesis
      using a' f1 section_entry_start_m_eq [OF frame f1 a']
        section_entry_section_end_m_eq [OF frame f1 a']
      by (simp add: ini_parser_parse_section_entry_m_def ini_parser_parse_section_entry_def
          peek_token_m_eq [OF frame] fail_with_m_def)
  qed
qed

lemma state_machine_m_eq:
  assumes frame: "\<forall>q b q'. ini_parser_fetch_more_tokens env q = (b, q')
             \<longrightarrow> document_end_produced q' = document_end_produced q"
    and "\<not> document_end_produced p"
  shows "ini_parser_state_machine_m env p ev = lift_panic (ini_parser_state_machine env p ev)"
  using assms(2)
  by (cases "state p")
     (simp_all add: ini_parser_state_machine_m_def ini_parser_state_machine_def
        ini_parser_parse_document_start_m_eq [OF frame] section_entry_m_eq [OF frame]
        ini_parser_parse_section_key_m_eq [OF frame] section_value_m_eq [OF frame])

lemma parse_m_eq:
  assumes frame: "\<forall>q b q'. ini_parser_fetch_more_tokens env q = (b, q')
             \<longrightarrow> document_end_produced q' = document_end_produced q"
  shows "ini_parser_parse_m env p ev = lift_panic (ini_parser_parse env p ev)"
  by (simp add: ini_parser_parse_m_def ini_parser_parse_def state_machine_m_eq [OF frame])

lemma parse_keeps_flag:
  assumes "ini_parser_parse env p ev = Inr (ok, ev', p')" and "document_end_produced p"
  shows "document_end_produced p'"
  using assms by (simp add: parse_latched)

lemma parse_calls_m_eq:
  assumes frame: "\<forall>q b q'. ini_parser_fetch_more_tokens env q = (b, q')
             \<longrightarrow> document_end_produced q' = document_end_produced q"
  shows "ini_parser_parse_calls_m env n p ev = lift_panic (ini_parser_parse_calls env n p ev)"
proof (induction n arbitrary: p ev)
  case 0
  show ?case by simp
next
  case (Suc n)
  show ?case
    using parse_keeps_flag [of env p ev]
    by (auto simp: parse_m_eq [OF frame] Suc.IH resets_flag_def
        split: sum.splits prod.splits)
qed

text \<open>
  C9: \<^verbatim>\<open>peek_token\<close> and \<^verbatim>\<open>skip_token\<close> are called by the transition functions only, and
  these by \<^verbatim>\<open>ini_parser_parse\<close>, so a sequence of operations on a parser is a sequence of
  calls of \<^verbatim>\<open>ini_parser_parse\<close> with the peeks and consumes that each call makes. For a
  tokenizer that leaves \<open>document_end_produced\<close> alone, from any parser and for any number
  of calls, the monitored run is the run itself: no peek, no consume and no call finds
  the flag true and leaves it false, so the monitor never stops the run with
  \<open>flag_reset\<close>. And a run that starts with the flag true ends with it true.
  (\<^verbatim>\<open>skip_token\<close> assigns the flag; what makes it monotone is that every consume that can
  set it is the last operation of its call, and that later calls return at the guard.)
\<close>

theorem document_end_produced_monotone:
  assumes "\<forall>q b q'. ini_parser_fetch_more_tokens env q = (b, q')
             \<longrightarrow> document_end_produced q' = document_end_produced q"
  shows "ini_parser_parse_calls_m env n p ev = lift_panic (ini_parser_parse_calls env n p ev)
         \<and> ini_parser_parse_calls_m env n p ev \<noteq> Inl flag_reset
         \<and> (document_end_produced p \<and> ini_parser_parse_calls env n p ev = Inr (results, p')
            \<longrightarrow> document_end_produced p')"
proof -
  have run: "ini_parser_parse_calls_m env n p ev = lift_panic (ini_parser_parse_calls env n p ev)"
    by (rule parse_calls_m_eq [OF assms])
  have "lift_panic r \<noteq> Inl flag_reset" for r :: "go_panic + 'c"
    by (cases r) simp_all
  with run have "ini_parser_parse_calls_m env n p ev \<noteq> Inl flag_reset"
    by simp
  moreover have "document_end_produced p'"
    if "document_end_produced p" and "ini_parser_parse_calls env n p ev = Inr (results, p')"
    using that by (simp add: parse_calls_latched)
  ultimately show ?thesis
    using run by blast
qed

text \<open>
  The sample tokenizer leaves the flag alone. On the input \<^verbatim>\<open>[\<close>, with one more token
  queued after the document-end token, the first call consumes the document-end token in
  place of the section name, which sets the flag, and fails; the two calls after it
  return at the guard. The monitored run of the three calls is the run itself, and the
  flag is set at its end.
\<close>

theorem document_end_produced_monotone_witness:
  "ini_parser_parse_calls_m sample_env 3
     (parser_over ini_PARSE_SECTION_FIRST_ENTRY_STATE [ini_PARSE_DOCUMENT_END_STATE]
        [token_of ini_SECTION_START_TOKEN 0 1 ''['', token_of ini_DOCUMENT_END_TOKEN 1 1 [],
         token_of ini_STREAM_END_TOKEN 1 1 []])
     ini_event_zero
   = Inr ([(False, ini_event_zero), (True, ini_event_zero), (True, ini_event_zero)],
          (parser_over ini_PARSE_SECTION_FIRST_ENTRY_STATE [ini_PARSE_DOCUMENT_END_STATE]
             [token_of ini_SECTION_START_TOKEN 0 1 ''['', token_of ini_DOCUMENT_END_TOKEN 1 1 [],
              token_of ini_STREAM_END_TOKEN 1 1 []])
            \<lparr>tokens_head := 2, tokens_parsed := 2, document_end_produced := True,
              error := ini_PARSER_ERROR, problem := ''did not find expected <scalar>'',
              problem_mark := mark_at 1\<rparr>)
   \<and> document_end_produced
       ((parser_over ini_PARSE_SECTION_FIRST_ENTRY_STATE [ini_PARSE_DOCUMENT_END_STATE]
           [token_of ini_SECTION_START_TOKEN 0 1 ''['', token_of ini_DOCUMENT_END_TOKEN 1 1 [],
            token_of ini_STREAM_END_TOKEN 1 1 []])
          \<lparr>tokens_head := 2, tokens_parsed := 2, document_end_produced := True,
            error := ini_PARSER_ERROR, problem := ''did not find expected <scalar>'',
            problem_mark := mark_at 1\<rparr>)"
proof -
  have frame: "\<forall>q b q'. ini_parser_fetch_more_tokens sample_env q = (b, q')
      \<longrightarrow> document_end_produced q' = document_end_produced q"
    by (auto simp: sample_env_def fetch_queued_def split: if_splits)
  let ?p = "parser_over ini_PARSE_SECTION_FIRST_ENTRY_STATE [ini_PARSE_DOCUMENT_END_STATE]
      [token_of ini_SECTION_START_TOKEN 0 1 ''['', token_of ini_DOCUMENT_END_TOKEN 1 1 [],
       token_of ini_STREAM_END_TOKEN 1 1 []]"
  let ?p' = "?p\<lparr>tokens_head := 2, tokens_parsed := 2, document_end_produced := True,
      error := ini_PARSER_ERROR, problem := ''did not find expected <scalar>'',
      problem_mark := mark_at 1\<rparr>"
  have first: "ini_parser_parse sample_env ?p ini_event_zero = Inr (False, ini_event_zero, ?p')"
    by (simp add: step_defs sample_defs)
  have later: "ini_parser_parse sample_env ?p' ini_event_zero = Inr (True, ini_event_zero, ?p')"
    by (rule parse_latched) (simp add: parser_over_def)
  have run: "ini_parser_parse_calls sample_env 3 ?p ini_event_zero =
      Inr ([(False, ini_event_zero), (True, ini_event_zero), (True, ini_event_zero)], ?p')"
    unfolding numeral_3_eq_3 by (simp add: first later)
  from document_end_produced_monotone [OF frame, of 3 ?p ini_event_zero] run
  show ?thesis
    by (simp add: parser_over_def)
qed

end
